theory Spec2Isabelle
  imports Complex_Main "HOL-Library.Word"
begin

section \<open>The Store: \<open>LLMTrackerDatabase\<close> over \<open>database-schema.sql\<close>\<close>

text \<open>
  The store is a SQLite database driven through prepared statements.  A table is the list
  of its rows in insertion order.  A column declared \<open>NOT NULL\<close> holds a value, any other
  column holds an \<open>option\<close> (\<open>None\<close> is SQL \<open>NULL\<close>).  A JavaScript data object is a record
  of optional properties: \<open>None\<close> is an absent (\<open>undefined\<close>) or \<open>null\<close> property, and
  either reaches the engine as \<open>NULL\<close>.

  What the engine does with one statement is written out in each operation, in the
  engine's order: the \<open>NOT NULL\<close> checks in column order, then the uniqueness checks
  (where an \<open>ON CONFLICT ... DO UPDATE\<close> clause takes over for its own target only), then
  the \<open>AFTER INSERT\<close> triggers of a row that was really inserted, then the foreign keys.
  A statement that fails changes nothing: the operation returns \<open>Inl\<close> the error and
  the caller keeps the database it had.
\<close>

datatype error =
    NotNullFailed string
  | UniqueFailed string
  | ForeignKeyFailed
  | TypeError string

fun err_message :: "error \<Rightarrow> string" where
  "err_message (NotNullFailed col) = ''NOT NULL constraint failed: '' @ col"
| "err_message (UniqueFailed col) = ''UNIQUE constraint failed: '' @ col"
| "err_message ForeignKeyFailed = ''FOREIGN KEY constraint failed''"
| "err_message (TypeError m) = m"

subsection \<open>JavaScript's \<open>||\<close> on optional properties\<close>

text \<open>\<open>x || null\<close>: a falsy \<open>x\<close> (absent, \<open>0\<close>, the empty string) becomes \<open>null\<close>.\<close>

fun or_null_int :: "int option \<Rightarrow> int option" where
  "or_null_int (Some n) = (if n = 0 then None else Some n)"
| "or_null_int None = None"

fun or_null_real :: "real option \<Rightarrow> real option" where
  "or_null_real (Some n) = (if n = 0 then None else Some n)"
| "or_null_real None = None"

fun or_null_str :: "string option \<Rightarrow> string option" where
  "or_null_str (Some s) = (if s = [] then None else Some s)"
| "or_null_str None = None"

text \<open>\<open>x || d\<close> for a default \<open>d\<close> that is always there.\<close>

fun or_int :: "int option \<Rightarrow> int \<Rightarrow> int" where
  "or_int (Some n) d = (if n = 0 then d else n)"
| "or_int None d = d"

fun or_str :: "string option \<Rightarrow> string \<Rightarrow> string" where
  "or_str (Some s) d = (if s = [] then d else s)"
| "or_str None d = d"

text \<open>\<open>x || y\<close> for two optional strings.\<close>

fun or_else_str :: "string option \<Rightarrow> string option \<Rightarrow> string option" where
  "or_else_str (Some s) y = (if s = [] then y else Some s)"
| "or_else_str None y = y"

text \<open>\<open>JSON.stringify(x || d)\<close> where \<open>x\<close> is an object or an array (always truthy when
  present); the property is carried as its JSON text.\<close>

fun json_or :: "string option \<Rightarrow> string \<Rightarrow> string" where
  "json_or (Some j) d = j"
| "json_or None d = d"

fun truthy_bool :: "bool option \<Rightarrow> bool" where
  "truthy_bool (Some b) = b"
| "truthy_bool None = False"

text \<open>\<open>c ? 1 : 0\<close>.\<close>

definition flag :: "bool \<Rightarrow> int" where
  "flag c = (if c then 1 else 0)"

subsection \<open>Rows\<close>

text \<open>Table \<open>conversations\<close>, every column.\<close>

record conversation =
  conv_id :: "string option"
  conv_platform :: string
  conv_platform_conversation_id :: "string option"
  conv_title :: "string option"
  conv_started_at :: int
  conv_last_activity :: int
  conv_message_count :: int
  conv_total_tokens :: int
  conv_total_cost :: real
  conv_model_used :: "string option"
  conv_status :: string
  conv_metadata :: string
  conv_created_at :: int
  conv_updated_at :: int

text \<open>Table \<open>messages\<close>: the columns \<open>insertMessage\<close> writes and \<open>created_at\<close>.  The columns
  \<open>message_id\<close>, \<open>html_content\<close>, \<open>parent_message_id\<close>, \<open>input_method\<close>, \<open>code_blocks\<close> and
  \<open>metadata\<close> are never written and stay \<open>NULL\<close>.\<close>

record message =
  msg_id :: "string option"
  msg_conversation_id :: string
  msg_timestamp :: int
  msg_role :: string
  msg_visible_content :: string
  msg_visible_to_user :: int
  msg_message_position :: "int option"
  msg_is_edited :: int
  msg_is_regenerated :: int
  msg_tokens_prompt :: "int option"
  msg_tokens_completion :: "int option"
  msg_tokens_total :: "int option"
  msg_time_to_first_token_ms :: "int option"
  msg_total_generation_time_ms :: "int option"
  msg_attachments :: string
  msg_created_at :: int

text \<open>Table \<open>api_captures\<close>: the columns \<open>insertApiCapture\<close> writes and \<open>created_at\<close>.\<close>

record api_capture =
  cap_id :: "string option"
  cap_message_id :: string
  cap_timestamp :: int
  cap_request_url :: string
  cap_request_method :: "string option"
  cap_request_headers :: string
  cap_request_body :: string
  cap_response_status :: "int option"
  cap_response_headers :: string
  cap_response_body :: string
  cap_raw_response :: "string option"
  cap_model :: "string option"
  cap_temperature :: "real option"
  cap_max_tokens :: "int option"
  cap_is_streaming :: int
  cap_platform :: "string option"
  cap_created_at :: int

text \<open>Table \<open>system_prompts\<close>: the columns \<open>upsertSystemPrompt\<close> writes, and the two
  time stamps with a default.\<close>

record system_prompt =
  sp_id :: "string option"
  sp_platform :: string
  sp_prompt_text :: string
  sp_prompt_hash :: string
  sp_first_seen :: int
  sp_last_seen :: int
  sp_occurrence_count :: int
  sp_conversation_ids :: string
  sp_created_at :: int
  sp_updated_at :: int

text \<open>Table \<open>streaming_chunks\<close>: the columns \<open>insertStreamingChunk\<close> writes.\<close>

record streaming_chunk =
  chunk_id :: "string option"
  chunk_message_id :: string
  chunk_index :: int
  chunk_timestamp :: int
  chunk_content :: "string option"
  chunk_delta_time_ms :: "int option"

text \<open>
  The open connection.  \<open>foreign_keys\<close> is the connection's foreign-key enforcement:
  \<open>init\<close> opens the file with \<open>new Database(path)\<close> of better-sqlite3, whose SQLite is
  built with foreign keys on by default, and issues the one pragma \<open>journal_mode = WAL\<close>,
  so that no operation of \<open>LLMTrackerDatabase\<close> changes the flag.
\<close>

record database =
  foreign_keys :: bool
  conversations :: "conversation list"
  messages :: "message list"
  api_captures :: "api_capture list"
  system_prompts :: "system_prompt list"
  streaming_chunks :: "streaming_chunk list"

text \<open>The column default \<open>(strftime('%s', 'now') * 1000)\<close>, at system time \<open>now\<close> (in
  milliseconds, as \<open>Date.now()\<close> reads it): whole seconds, times 1000.\<close>

definition strftime_ms :: "int \<Rightarrow> int" where
  "strftime_ms now = (now div 1000) * 1000"

definition init :: "bool \<Rightarrow> database" where
  "init fk_default =
     \<lparr>foreign_keys = fk_default, conversations = [], messages = [], api_captures = [],
      system_prompts = [], streaming_chunks = []\<rparr>"

subsection \<open>Data objects passed to the operations\<close>

record conversation_data =
  cd_id :: "string option"
  cd_platform :: "string option"
  cd_platform_conversation_id :: "string option"
  cd_conversation_id :: "string option"
  cd_started_at :: "int option"
  cd_last_activity :: "int option"
  cd_title :: "string option"
  cd_message_count :: "int option"
  cd_total_tokens :: "int option"
  cd_model_used :: "string option"
  cd_metadata :: "string option"

record message_data =
  md_id :: "string option"
  md_conversation_id :: "string option"
  md_timestamp :: "int option"
  md_role :: "string option"
  md_content :: "string option"
  md_visible_content :: "string option"
  md_visible_to_user :: "bool option"
  md_message_position :: "int option"
  md_edited :: "bool option"
  md_is_edited :: "bool option"
  md_regenerated :: "bool option"
  md_is_regenerated :: "bool option"
  md_tokens_prompt :: "int option"
  md_tokens_completion :: "int option"
  md_tokens_total :: "int option"
  md_time_to_first_token_ms :: "int option"
  md_total_generation_time_ms :: "int option"
  md_attachments :: "string option"
  md_platform :: "string option"

record capture_data =
  ad_id :: "string option"
  ad_message_id :: "string option"
  ad_timestamp :: "int option"
  ad_request_url :: "string option"
  ad_request_method :: "string option"
  ad_request_headers :: "string option"
  ad_request_body :: "string option"
  ad_response_status :: "int option"
  ad_response_headers :: "string option"
  ad_response_body :: "string option"
  ad_raw_response :: "string option"
  ad_model :: "string option"
  ad_system_prompts :: "string list option"
  ad_temperature :: "real option"
  ad_max_tokens :: "int option"
  ad_stream :: "bool option"
  ad_is_streaming :: "bool option"
  ad_platform :: "string option"

record prompt_data =
  pd_id :: "string option"
  pd_platform :: "string option"
  pd_prompt_text :: "string option"
  pd_first_seen :: "int option"
  pd_last_seen :: "int option"
  pd_conversation_ids :: "string option"

record chunk_data =
  sd_id :: "string option"
  sd_message_id :: "string option"
  sd_chunk_index :: "int option"
  sd_timestamp :: "int option"
  sd_content :: "string option"
  sd_delta_time_ms :: "int option"

text \<open>The object \<open>{}\<close>, of each shape.\<close>

definition empty_conversation_data :: conversation_data where
  "empty_conversation_data =
     \<lparr>cd_id = None, cd_platform = None, cd_platform_conversation_id = None,
      cd_conversation_id = None, cd_started_at = None, cd_last_activity = None,
      cd_title = None, cd_message_count = None, cd_total_tokens = None,
      cd_model_used = None, cd_metadata = None\<rparr>"

definition empty_message_data :: message_data where
  "empty_message_data =
     \<lparr>md_id = None, md_conversation_id = None, md_timestamp = None, md_role = None,
      md_content = None, md_visible_content = None, md_visible_to_user = None,
      md_message_position = None, md_edited = None, md_is_edited = None,
      md_regenerated = None, md_is_regenerated = None, md_tokens_prompt = None,
      md_tokens_completion = None, md_tokens_total = None,
      md_time_to_first_token_ms = None, md_total_generation_time_ms = None,
      md_attachments = None, md_platform = None\<rparr>"

definition empty_capture_data :: capture_data where
  "empty_capture_data =
     \<lparr>ad_id = None, ad_message_id = None, ad_timestamp = None, ad_request_url = None,
      ad_request_method = None, ad_request_headers = None, ad_request_body = None,
      ad_response_status = None, ad_response_headers = None, ad_response_body = None,
      ad_raw_response = None, ad_model = None, ad_system_prompts = None,
      ad_temperature = None, ad_max_tokens = None, ad_stream = None,
      ad_is_streaming = None, ad_platform = None\<rparr>"

definition empty_prompt_data :: prompt_data where
  "empty_prompt_data =
     \<lparr>pd_id = None, pd_platform = None, pd_prompt_text = None, pd_first_seen = None,
      pd_last_seen = None, pd_conversation_ids = None\<rparr>"

definition empty_chunk_data :: chunk_data where
  "empty_chunk_data =
     \<lparr>sd_id = None, sd_message_id = None, sd_chunk_index = None, sd_timestamp = None,
      sd_content = None, sd_delta_time_ms = None\<rparr>"

subsection \<open>\<open>getConversation\<close>, \<open>getMessages\<close>\<close>

definition getConversation :: "database \<Rightarrow> string \<Rightarrow> conversation option" where
  "getConversation db i = find (\<lambda>r. conv_id r = Some i) (conversations db)"

text \<open>The rows of \<open>getMessages\<close>, before its \<open>ORDER BY timestamp\<close>.\<close>

definition messages_of :: "database \<Rightarrow> string \<Rightarrow> message list" where
  "messages_of db cid = filter (\<lambda>m. msg_conversation_id m = cid) (messages db)"

fun insort_message :: "message \<Rightarrow> message list \<Rightarrow> message list" where
  "insort_message m [] = [m]"
| "insort_message m (x # xs) =
     (if msg_timestamp m < msg_timestamp x then m # x # xs else x # insort_message m xs)"

definition getMessages :: "database \<Rightarrow> string \<Rightarrow> message list" where
  "getMessages db cid = foldl (\<lambda>acc m. insort_message m acc) [] (messages_of db cid)"

subsection \<open>\<open>upsertConversation\<close>\<close>

text \<open>The \<open>DO UPDATE SET\<close> clause, applied to the row in conflict.\<close>

definition conflict_update_conversation ::
  "int \<Rightarrow> int \<Rightarrow> int \<Rightarrow> string \<Rightarrow> conversation \<Rightarrow> conversation" where
  "conflict_update_conversation la mc tt md r =
     r\<lparr>conv_last_activity := la, conv_message_count := mc, conv_total_tokens := tt,
       conv_metadata := md\<rparr>"

text \<open>The row of the \<open>VALUES\<close> clause, once its \<open>NOT NULL\<close> columns are known to be there.\<close>

definition conversation_row ::
  "int \<Rightarrow> conversation_data \<Rightarrow> string \<Rightarrow> int \<Rightarrow> int \<Rightarrow> conversation" where
  "conversation_row now data platform started_at last_activity =
     \<lparr>conv_id = cd_id data, conv_platform = platform,
      conv_platform_conversation_id =
        or_else_str (cd_platform_conversation_id data) (or_null_str (cd_conversation_id data)),
      conv_title = or_null_str (cd_title data), conv_started_at = started_at,
      conv_last_activity = last_activity,
      conv_message_count = or_int (cd_message_count data) 0,
      conv_total_tokens = or_int (cd_total_tokens data) 0, conv_total_cost = 0,
      conv_model_used = or_null_str (cd_model_used data), conv_status = ''active'',
      conv_metadata = json_or (cd_metadata data) ''{}'',
      conv_created_at = strftime_ms now, conv_updated_at = strftime_ms now\<rparr>"

definition upsertConversation :: "database \<Rightarrow> int \<Rightarrow> conversation_data \<Rightarrow> error + database" where
  "upsertConversation db now data =
     (case cd_platform data of
        None \<Rightarrow> Inl (NotNullFailed ''conversations.platform'')
      | Some platform \<Rightarrow>
     (case cd_started_at data of
        None \<Rightarrow> Inl (NotNullFailed ''conversations.started_at'')
      | Some started_at \<Rightarrow>
     (case cd_last_activity data of
        None \<Rightarrow> Inl (NotNullFailed ''conversations.last_activity'')
      | Some last_activity \<Rightarrow>
          if cd_id data \<noteq> None \<and> cd_id data \<in> conv_id ` set (conversations db)
          then Inr (db\<lparr>conversations :=
                 map (\<lambda>r. if conv_id r = cd_id data
                           then conflict_update_conversation last_activity
                                  (or_int (cd_message_count data) 0)
                                  (or_int (cd_total_tokens data) 0)
                                  (json_or (cd_metadata data) ''{}'') r
                           else r) (conversations db)\<rparr>)
          else Inr (db\<lparr>conversations := conversations db @
                 [conversation_row now data platform started_at last_activity]\<rparr>))))"

subsection \<open>\<open>insertMessage\<close> and the trigger \<open>update_conversation_stats\<close>\<close>

text \<open>The trigger's \<open>UPDATE conversations ... WHERE id = NEW.conversation_id\<close>.\<close>

definition update_conversation_stats :: "int \<Rightarrow> message \<Rightarrow> conversation list \<Rightarrow> conversation list" where
  "update_conversation_stats now new rows =
     map (\<lambda>r. if conv_id r = Some (msg_conversation_id new)
               then r\<lparr>conv_message_count := conv_message_count r + 1,
                      conv_total_tokens := conv_total_tokens r +
                        (case msg_tokens_total new of None \<Rightarrow> 0 | Some t \<Rightarrow> t),
                      conv_last_activity := msg_timestamp new,
                      conv_updated_at := strftime_ms now\<rparr>
               else r) rows"

definition message_row ::
  "int \<Rightarrow> message_data \<Rightarrow> string \<Rightarrow> int \<Rightarrow> string \<Rightarrow> string \<Rightarrow> message" where
  "message_row now data conversation_id timestamp role visible_content =
     \<lparr>msg_id = md_id data, msg_conversation_id = conversation_id,
      msg_timestamp = timestamp, msg_role = role, msg_visible_content = visible_content,
      msg_visible_to_user = flag (md_visible_to_user data \<noteq> Some False),
      msg_message_position = or_null_int (md_message_position data),
      msg_is_edited = flag (truthy_bool (md_edited data) \<or> truthy_bool (md_is_edited data)),
      msg_is_regenerated =
        flag (truthy_bool (md_regenerated data) \<or> truthy_bool (md_is_regenerated data)),
      msg_tokens_prompt = or_null_int (md_tokens_prompt data),
      msg_tokens_completion = or_null_int (md_tokens_completion data),
      msg_tokens_total = or_null_int (md_tokens_total data),
      msg_time_to_first_token_ms = or_null_int (md_time_to_first_token_ms data),
      msg_total_generation_time_ms = or_null_int (md_total_generation_time_ms data),
      msg_attachments = json_or (md_attachments data) ''[]'',
      msg_created_at = strftime_ms now\<rparr>"

definition insertMessage :: "database \<Rightarrow> int \<Rightarrow> message_data \<Rightarrow> error + database" where
  "insertMessage db now data =
     (case md_conversation_id data of
        None \<Rightarrow> Inl (NotNullFailed ''messages.conversation_id'')
      | Some conversation_id \<Rightarrow>
     (case md_timestamp data of
        None \<Rightarrow> Inl (NotNullFailed ''messages.timestamp'')
      | Some timestamp \<Rightarrow>
     (case md_role data of
        None \<Rightarrow> Inl (NotNullFailed ''messages.role'')
      | Some role \<Rightarrow>
     (case or_else_str (md_content data) (md_visible_content data) of
        None \<Rightarrow> Inl (NotNullFailed ''messages.visible_content'')
      | Some visible_content \<Rightarrow>
          if md_id data \<noteq> None \<and> md_id data \<in> msg_id ` set (messages db)
          then Inl (UniqueFailed ''messages.id'')
          else if foreign_keys db \<and> Some conversation_id \<notin> conv_id ` set (conversations db)
          then Inl ForeignKeyFailed
          else Inr (db\<lparr>messages := messages db @
                      [message_row now data conversation_id timestamp role visible_content],
                    conversations :=
                      update_conversation_stats now
                        (message_row now data conversation_id timestamp role visible_content)
                        (conversations db)\<rparr>)))))"


text \<open>The \<open>tokens_total\<close> a call contributes (an absent value counts as 0).\<close>

definition tokens_of :: "message_data \<Rightarrow> int" where
  "tokens_of data = (case md_tokens_total data of None \<Rightarrow> 0 | Some t \<Rightarrow> t)"

definition row_tokens :: "message \<Rightarrow> int" where
  "row_tokens m = (case msg_tokens_total m of None \<Rightarrow> 0 | Some t \<Rightarrow> t)"

subsection \<open>\<open>insertApiCapture\<close>\<close>

definition capture_row :: "int \<Rightarrow> capture_data \<Rightarrow> string \<Rightarrow> int \<Rightarrow> string \<Rightarrow> api_capture" where
  "capture_row now data message_id timestamp request_url =
     \<lparr>cap_id = ad_id data, cap_message_id = message_id, cap_timestamp = timestamp,
      cap_request_url = request_url,
      cap_request_method = or_null_str (ad_request_method data),
      cap_request_headers = json_or (ad_request_headers data) ''{}'',
      cap_request_body = json_or (ad_request_body data) ''{}'',
      cap_response_status = or_null_int (ad_response_status data),
      cap_response_headers = json_or (ad_response_headers data) ''{}'',
      cap_response_body = json_or (ad_response_body data) ''{}'',
      cap_raw_response = or_null_str (ad_raw_response data),
      cap_model = or_null_str (ad_model data),
      cap_temperature = or_null_real (ad_temperature data),
      cap_max_tokens = or_null_int (ad_max_tokens data),
      cap_is_streaming = flag (truthy_bool (ad_stream data) \<or> truthy_bool (ad_is_streaming data)),
      cap_platform = or_null_str (ad_platform data),
      cap_created_at = strftime_ms now\<rparr>"

definition insertApiCapture :: "database \<Rightarrow> int \<Rightarrow> capture_data \<Rightarrow> error + database" where
  "insertApiCapture db now data =
     (case ad_message_id data of
        None \<Rightarrow> Inl (NotNullFailed ''api_captures.message_id'')
      | Some message_id \<Rightarrow>
     (case ad_timestamp data of
        None \<Rightarrow> Inl (NotNullFailed ''api_captures.timestamp'')
      | Some timestamp \<Rightarrow>
     (case or_null_str (ad_request_url data) of
        None \<Rightarrow> Inl (NotNullFailed ''api_captures.request_url'')
      | Some request_url \<Rightarrow>
          if ad_id data \<noteq> None \<and> ad_id data \<in> cap_id ` set (api_captures db)
          then Inl (UniqueFailed ''api_captures.id'')
          else if foreign_keys db \<and> Some message_id \<notin> msg_id ` set (messages db)
          then Inl ForeignKeyFailed
          else Inr (db\<lparr>api_captures := api_captures db @
                      [capture_row now data message_id timestamp request_url]\<rparr>))))"

subsection \<open>\<open>upsertSystemPrompt\<close> and the trigger \<open>update_system_prompt_occurrence\<close>\<close>

text \<open>
  \<open>sha256\<close> stands for \<open>crypto.createHash('sha256').update(text).digest('hex')\<close>, \<open>uuid\<close>
  for the value \<open>crypto.randomUUID()\<close> returns in this call, and \<open>now\<close> for the system
  time.  \<open>update(undefined)\<close> throws a \<open>TypeError\<close> before any statement runs.
\<close>

text \<open>The \<open>DO UPDATE SET\<close> clause, applied to the row in conflict.\<close>

definition conflict_update_prompt :: "int \<Rightarrow> system_prompt \<Rightarrow> system_prompt" where
  "conflict_update_prompt last_seen r =
     r\<lparr>sp_last_seen := last_seen, sp_occurrence_count := sp_occurrence_count r + 1\<rparr>"

text \<open>The trigger's \<open>UPDATE system_prompts ... WHERE prompt_hash = NEW.prompt_hash AND
  id != NEW.id\<close>; a comparison with \<open>NULL\<close> is not true.\<close>

definition update_system_prompt_occurrence ::
  "int \<Rightarrow> system_prompt \<Rightarrow> system_prompt list \<Rightarrow> system_prompt list" where
  "update_system_prompt_occurrence now new rows =
     map (\<lambda>r. if sp_prompt_hash r = sp_prompt_hash new \<and> sp_id r \<noteq> None \<and>
                  sp_id new \<noteq> None \<and> sp_id r \<noteq> sp_id new
               then r\<lparr>sp_occurrence_count := sp_occurrence_count r + 1,
                      sp_last_seen := sp_last_seen new,
                      sp_updated_at := strftime_ms now\<rparr>
               else r) rows"

definition prompt_row ::
  "int \<Rightarrow> string \<Rightarrow> string \<Rightarrow> prompt_data \<Rightarrow> string \<Rightarrow> string \<Rightarrow> system_prompt" where
  "prompt_row now uuid hash data platform prompt_text =
     \<lparr>sp_id = Some (or_str (pd_id data) uuid), sp_platform = platform,
      sp_prompt_text = prompt_text, sp_prompt_hash = hash,
      sp_first_seen = or_int (pd_first_seen data) now,
      sp_last_seen = or_int (pd_last_seen data) now,
      sp_occurrence_count = 1,
      sp_conversation_ids = json_or (pd_conversation_ids data) ''[]'',
      sp_created_at = strftime_ms now, sp_updated_at = strftime_ms now\<rparr>"

definition upsertSystemPrompt ::
  "(string \<Rightarrow> string) \<Rightarrow> database \<Rightarrow> int \<Rightarrow> string \<Rightarrow> prompt_data \<Rightarrow> error + database" where
  "upsertSystemPrompt sha256 db now uuid data =
     (case pd_prompt_text data of
        None \<Rightarrow> Inl (TypeError ''The data argument must be of type string'')
      | Some prompt_text \<Rightarrow>
     (case pd_platform data of
        None \<Rightarrow> Inl (NotNullFailed ''system_prompts.platform'')
      | Some platform \<Rightarrow>
          if sha256 prompt_text \<in> sp_prompt_hash ` set (system_prompts db)
          then Inr (db\<lparr>system_prompts :=
                 map (\<lambda>r. if sp_prompt_hash r = sha256 prompt_text
                           then conflict_update_prompt (or_int (pd_last_seen data) now) r
                           else r) (system_prompts db)\<rparr>)
          else if Some (or_str (pd_id data) uuid) \<in> sp_id ` set (system_prompts db)
          then Inl (UniqueFailed ''system_prompts.id'')
          else Inr (db\<lparr>system_prompts :=
                 update_system_prompt_occurrence now
                   (prompt_row now uuid (sha256 prompt_text) data platform prompt_text)
                   (system_prompts db @
                     [prompt_row now uuid (sha256 prompt_text) data platform prompt_text])\<rparr>)))"

text \<open>A sequence of calls, each with its own time and fresh identifier.\<close>

fun upsertSystemPrompts ::
  "(string \<Rightarrow> string) \<Rightarrow> database \<Rightarrow> (int \<times> string \<times> prompt_data) list \<Rightarrow> error + database" where
  "upsertSystemPrompts sha256 db [] = Inr db"
| "upsertSystemPrompts sha256 db ((now, uuid, data) # rest) =
     (case upsertSystemPrompt sha256 db now uuid data of
        Inl e \<Rightarrow> Inl e
      | Inr db' \<Rightarrow> upsertSystemPrompts sha256 db' rest)"

subsection \<open>\<open>insertStreamingChunk\<close>\<close>

definition insertStreamingChunk :: "database \<Rightarrow> chunk_data \<Rightarrow> error + database" where
  "insertStreamingChunk db data =
     (case sd_message_id data of
        None \<Rightarrow> Inl (NotNullFailed ''streaming_chunks.message_id'')
      | Some message_id \<Rightarrow>
     (case sd_chunk_index data of
        None \<Rightarrow> Inl (NotNullFailed ''streaming_chunks.chunk_index'')
      | Some index \<Rightarrow>
     (case sd_timestamp data of
        None \<Rightarrow> Inl (NotNullFailed ''streaming_chunks.timestamp'')
      | Some timestamp \<Rightarrow>
          if sd_id data \<noteq> None \<and> sd_id data \<in> chunk_id ` set (streaming_chunks db)
          then Inl (UniqueFailed ''streaming_chunks.id'')
          else if foreign_keys db \<and> Some message_id \<notin> msg_id ` set (messages db)
          then Inl ForeignKeyFailed
          else Inr (db\<lparr>streaming_chunks := streaming_chunks db @
                      [\<lparr>chunk_id = sd_id data, chunk_message_id = message_id,
                        chunk_index = index, chunk_timestamp = timestamp,
                        chunk_content = or_null_str (sd_content data),
                        chunk_delta_time_ms = or_null_int (sd_delta_time_ms data)\<rparr>]\<rparr>))))"

section \<open>The Ingestion Server: \<open>WebSocketServer\<close>\<close>

text \<open>
  One connection is its \<open>readyState\<close> and the list of the messages the server has written
  to it.  An envelope is the parsed JSON object \<open>{type, id, data}\<close>: its \<open>type\<close> selects
  the handler, and \<open>data\<close> is seen at the properties that handler reads (\<open>None\<close> when the
  envelope has no \<open>data\<close>, where the handler's first property access throws).
  \<open>now\<close> is \<open>Date.now()\<close> while the envelope is handled and \<open>uuid k\<close> the value of the
  \<open>k\<close>-th \<open>crypto.randomUUID()\<close>.
\<close>

datatype ready_state = CONNECTING | OPEN | CLOSING | CLOSED

datatype server_message =
    Connection int
  | Ack "string option" int
  | Pong int
  | ErrorNotification string int

record socket =
  readyState :: ready_state
  sent :: "server_message list"

datatype envelope_body =
    Conversation "conversation_data option"
  | Message "message_data option"
  | ApiCapture "capture_data option"
  | SystemPrompt "prompt_data option"
  | StreamingChunk "chunk_data option"
  | Ping
  | Unknown string

record envelope =
  env_id :: "string option"
  env_body :: envelope_body

definition send :: "socket \<Rightarrow> server_message \<Rightarrow> socket" where
  "send ws message = (if readyState ws = OPEN then ws\<lparr>sent := sent ws @ [message]\<rparr> else ws)"

definition sendError :: "socket \<Rightarrow> string \<Rightarrow> int \<Rightarrow> socket" where
  "sendError ws err now = send ws (ErrorNotification err now)"

text \<open>A handler returns the database it leaves behind and the exception it threw, if any:
  a statement that has run stays in the database when a later one throws.\<close>

definition run :: "database \<Rightarrow> error + database \<Rightarrow> database \<times> error option" where
  "run db r = (case r of Inl e \<Rightarrow> (db, Some e) | Inr db' \<Rightarrow> (db', None))"

definition undefined_data :: error where
  "undefined_data = TypeError ''Cannot read properties of undefined''"

definition handleConversation ::
  "database \<Rightarrow> int \<Rightarrow> (nat \<Rightarrow> string) \<Rightarrow> conversation_data option \<Rightarrow> database \<times> error option" where
  "handleConversation db now uuid d =
     (case d of
        None \<Rightarrow> (db, Some undefined_data)
      | Some data \<Rightarrow>
          run db (upsertConversation db now
            (empty_conversation_data\<lparr>
               cd_id := Some (or_str (cd_id data) (uuid 0)),
               cd_platform := cd_platform data,
               cd_conversation_id := cd_conversation_id data,
               cd_started_at := Some (or_int (cd_started_at data) now),
               cd_last_activity := Some (or_int (cd_last_activity data) now),
               cd_title := cd_title data,
               cd_message_count := Some (or_int (cd_message_count data) 0),
               cd_total_tokens := Some (or_int (cd_total_tokens data) 0),
               cd_model_used := cd_model_used data,
               cd_metadata := cd_metadata data\<rparr>)))"

text \<open>The two objects \<open>handleUserMessage\<close> builds.\<close>

definition messageData :: "int \<Rightarrow> (nat \<Rightarrow> string) \<Rightarrow> message_data \<Rightarrow> message_data" where
  "messageData now uuid data =
     empty_message_data\<lparr>
       md_id := Some (or_str (md_id data) (uuid 0)),
       md_conversation_id := md_conversation_id data,
       md_timestamp := Some (or_int (md_timestamp data) now),
       md_role := md_role data,
       md_content := md_content data,
       md_visible_to_user := md_visible_to_user data,
       md_message_position := md_message_position data,
       md_edited := md_edited data,
       md_regenerated := md_regenerated data,
       md_tokens_prompt := md_tokens_prompt data,
       md_tokens_completion := md_tokens_completion data,
       md_tokens_total := md_tokens_total data,
       md_time_to_first_token_ms := md_time_to_first_token_ms data,
       md_total_generation_time_ms := md_total_generation_time_ms data,
       md_attachments := md_attachments data\<rparr>"

definition conversation_update :: "int \<Rightarrow> message_data \<Rightarrow> conversation_data" where
  "conversation_update now data =
     empty_conversation_data\<lparr>
       cd_id := md_conversation_id data,
       cd_platform := md_platform data,
       cd_last_activity := Some now,
       cd_message_count := Some (or_int (md_message_position data) 0 + 1)\<rparr>"

definition handleUserMessage ::
  "database \<Rightarrow> int \<Rightarrow> (nat \<Rightarrow> string) \<Rightarrow> message_data option \<Rightarrow> database \<times> error option" where
  "handleUserMessage db now uuid d =
     (case d of
        None \<Rightarrow> (db, Some undefined_data)
      | Some data \<Rightarrow>
         (case insertMessage db now (messageData now uuid data) of
            Inl e \<Rightarrow> (db, Some e)
          | Inr db1 \<Rightarrow> run db1 (upsertConversation db1 now (conversation_update now data))))"

text \<open>The loop over \<open>data.system_prompts\<close>; the \<open>k\<close>-th prompt draws \<open>uuid k\<close>.\<close>

fun store_system_prompts ::
  "(string \<Rightarrow> string) \<Rightarrow> database \<Rightarrow> int \<Rightarrow> (nat \<Rightarrow> string) \<Rightarrow> nat \<Rightarrow> string option \<Rightarrow>
   string list \<Rightarrow> database \<times> error option" where
  "store_system_prompts sha256 db now uuid k platform [] = (db, None)"
| "store_system_prompts sha256 db now uuid k platform (prompt # rest) =
     (case upsertSystemPrompt sha256 db now (uuid k)
             (empty_prompt_data\<lparr>pd_platform := Some (or_str platform ''unknown''),
                pd_prompt_text := Some prompt, pd_first_seen := Some now,
                pd_last_seen := Some now\<rparr>) of
        Inl e \<Rightarrow> (db, Some e)
      | Inr db' \<Rightarrow> store_system_prompts sha256 db' now uuid (Suc k) platform rest)"

definition captureData :: "int \<Rightarrow> (nat \<Rightarrow> string) \<Rightarrow> capture_data \<Rightarrow> capture_data" where
  "captureData now uuid data =
     data\<lparr>ad_id := Some (or_str (ad_id data) (uuid 0)),
          ad_timestamp := Some (or_int (ad_timestamp data) now),
          ad_is_streaming := None, ad_platform := None\<rparr>"

definition handleApiCapture ::
  "(string \<Rightarrow> string) \<Rightarrow> database \<Rightarrow> int \<Rightarrow> (nat \<Rightarrow> string) \<Rightarrow> capture_data option \<Rightarrow>
   database \<times> error option" where
  "handleApiCapture sha256 db now uuid d =
     (case d of
        None \<Rightarrow> (db, Some undefined_data)
      | Some data \<Rightarrow>
         (case insertApiCapture db now (captureData now uuid data) of
            Inl e \<Rightarrow> (db, Some e)
          | Inr db1 \<Rightarrow>
              (case ad_system_prompts data of
                 None \<Rightarrow> (db1, None)
               | Some prompts \<Rightarrow>
                   store_system_prompts sha256 db1 now uuid 1 (ad_platform data) prompts)))"

definition handleSystemPrompt ::
  "(string \<Rightarrow> string) \<Rightarrow> database \<Rightarrow> int \<Rightarrow> (nat \<Rightarrow> string) \<Rightarrow> prompt_data option \<Rightarrow>
   database \<times> error option" where
  "handleSystemPrompt sha256 db now uuid d =
     (case d of
        None \<Rightarrow> (db, Some undefined_data)
      | Some data \<Rightarrow>
          run db (upsertSystemPrompt sha256 db now (uuid 0)
            (empty_prompt_data\<lparr>pd_platform := pd_platform data,
               pd_prompt_text := pd_prompt_text data,
               pd_first_seen := Some (or_int (pd_first_seen data) now),
               pd_last_seen := Some (or_int (pd_last_seen data) now)\<rparr>)))"

definition handleStreamingChunk ::
  "database \<Rightarrow> int \<Rightarrow> (nat \<Rightarrow> string) \<Rightarrow> chunk_data option \<Rightarrow> database \<times> error option" where
  "handleStreamingChunk db now uuid d =
     (case d of
        None \<Rightarrow> (db, Some undefined_data)
      | Some data \<Rightarrow>
          run db (insertStreamingChunk db
            (data\<lparr>sd_id := Some (or_str (sd_id data) (uuid 0)),
                  sd_timestamp := Some (or_int (sd_timestamp data) now)\<rparr>)))"

text \<open>The \<open>switch\<close> of \<open>handleMessage\<close>: what it leaves in the database and on the
  connection, and the exception it threw, if any.\<close>

fun dispatch ::
  "(string \<Rightarrow> string) \<Rightarrow> int \<Rightarrow> (nat \<Rightarrow> string) \<Rightarrow> database \<Rightarrow> socket \<Rightarrow> envelope_body \<Rightarrow>
   (database \<times> error option) \<times> socket" where
  "dispatch sha256 now uuid db ws (Conversation d) = (handleConversation db now uuid d, ws)"
| "dispatch sha256 now uuid db ws (Message d) = (handleUserMessage db now uuid d, ws)"
| "dispatch sha256 now uuid db ws (ApiCapture d) = (handleApiCapture sha256 db now uuid d, ws)"
| "dispatch sha256 now uuid db ws (SystemPrompt d) = (handleSystemPrompt sha256 db now uuid d, ws)"
| "dispatch sha256 now uuid db ws (StreamingChunk d) = (handleStreamingChunk db now uuid d, ws)"
| "dispatch sha256 now uuid db ws Ping = ((db, None), send ws (Pong now))"
| "dispatch sha256 now uuid db ws (Unknown t) = ((db, None), ws)"

definition handleMessage ::
  "(string \<Rightarrow> string) \<Rightarrow> int \<Rightarrow> (nat \<Rightarrow> string) \<Rightarrow> database \<Rightarrow> socket \<Rightarrow> envelope \<Rightarrow>
   database \<times> socket" where
  "handleMessage sha256 now uuid db ws message =
     (case dispatch sha256 now uuid db ws (env_body message) of
        ((db', None), ws') \<Rightarrow> (db', send ws' (Ack (env_id message) now))
      | ((db', Some err), ws') \<Rightarrow> (db', sendError ws' (err_message err) now))"

text \<open>What a run of \<open>handleMessage\<close> wrote to the connection, and how many of those
  messages are acknowledgments or error notifications.\<close>

definition emitted :: "socket \<Rightarrow> socket \<Rightarrow> server_message list" where
  "emitted ws ws' = drop (length (sent ws)) (sent ws')"

fun is_ack :: "server_message \<Rightarrow> bool" where
  "is_ack (Ack i t) = True"
| "is_ack m = False"

fun is_error :: "server_message \<Rightarrow> bool" where
  "is_error (ErrorNotification e t) = True"
| "is_error m = False"

section \<open>The Bridge: \<open>NativeMessagingHost\<close>\<close>

subsection \<open>Frames on the process boundary\<close>

type_synonym byte = "8 word"

text \<open>
  \<open>JSON.stringify\<close> followed by \<open>Buffer.from\<close>, and \<open>Buffer.toString\<close> followed by
  \<open>JSON.parse\<close>, belong to the runtime; the host is modelled over any such pair.
  \<open>stringify\<close> is \<open>None\<close> where the pair of calls throws, \<open>parse\<close> is \<open>Inl\<close> the message of
  the \<open>SyntaxError\<close> where \<open>JSON.parse\<close> throws.
\<close>

record 'm codec =
  stringify :: "'m \<Rightarrow> byte list option"
  parse :: "byte list \<Rightarrow> string + 'm"

text \<open>\<open>Buffer.writeUInt32LE\<close> into a fresh 4-byte buffer; a value of \<open>2^32\<close> or more
  throws a \<open>RangeError\<close>.\<close>

definition writeUInt32LE :: "nat \<Rightarrow> byte list option" where
  "writeUInt32LE v =
     (if v < 2 ^ 32
      then Some [of_nat (v mod 256), of_nat (v div 256 mod 256),
                 of_nat (v div 65536 mod 256), of_nat (v div 16777216 mod 256)]
      else None)"


text \<open>
  The standard input as a paused readable stream: the bytes in its internal buffer, the
  chunks the producer has still to deliver (one \<open>readable\<close> event each), whether the
  producer closes the stream after them (one last \<open>readable\<close> event) and whether it has.
  \<open>read_stdin n\<close> is \<open>process.stdin.read(n)\<close>: \<open>n\<close> bytes when the buffer holds them,
  what is left when the stream has ended, \<open>null\<close> otherwise, and \<open>null\<close> for \<open>n = 0\<close>.
  The buffer takes every chunk that arrives, as many bytes as a read waits for.
\<close>

record stdin =
  buffered :: "byte list"
  arriving :: "byte list list"
  closes :: bool
  ended :: bool

definition read_stdin :: "nat \<Rightarrow> stdin \<Rightarrow> byte list option \<times> stdin" where
  "read_stdin n s =
     (if n = 0 then (None, s)
      else if n \<le> length (buffered s)
      then (Some (take n (buffered s)), s\<lparr>buffered := drop n (buffered s)\<rparr>)
      else if ended s \<and> buffered s \<noteq> []
      then (Some (buffered s), s\<lparr>buffered := []\<rparr>)
      else (None, s))"

text \<open>\<open>process.stdin.once('readable', f)\<close>: the stream at the next \<open>readable\<close> event, where
  \<open>f\<close> runs; \<open>None\<close> when no event is to come and \<open>f\<close> never runs.\<close>

definition once_readable :: "stdin \<Rightarrow> stdin option" where
  "once_readable s =
     (case arriving s of
        chunk # rest \<Rightarrow> Some (s\<lparr>buffered := buffered s @ chunk, arriving := rest\<rparr>)
      | [] \<Rightarrow> if closes s \<and> \<not> ended s then Some (s\<lparr>ended := True\<rparr>) else None)"

definition events_left :: "stdin \<Rightarrow> nat" where
  "events_left s = length (arriving s) + (if closes s \<and> \<not> ended s then 1 else 0)"

text \<open>The promise of \<open>readMessageFromChrome\<close>: resolved with a message, rejected with an
  error, or never settled.\<close>

datatype 'm settled = Resolved 'm | Rejected string | Pending

function readChunk :: "'m codec \<Rightarrow> nat \<Rightarrow> byte list \<Rightarrow> stdin \<Rightarrow> 'm settled \<times> stdin" where
  "readChunk cd len messageBuffer s =
     (case read_stdin (len - length messageBuffer) s of
        (Some chunk, s1) \<Rightarrow>
          if length (messageBuffer @ chunk) = len
          then (case parse cd (messageBuffer @ chunk) of
                  Inr message \<Rightarrow> (Resolved message, s1)
                | Inl err \<Rightarrow> (Rejected (''Invalid JSON: '' @ err), s1))
          else (case once_readable s1 of
                  None \<Rightarrow> (Pending, s1)
                | Some s2 \<Rightarrow> readChunk cd len (messageBuffer @ chunk) s2)
      | (None, s1) \<Rightarrow>
          (case once_readable s1 of
             None \<Rightarrow> (Pending, s1)
           | Some s2 \<Rightarrow> readChunk cd len messageBuffer s2))"
  by pat_completeness auto
termination
  by (relation "measure (\<lambda>(cd, len, messageBuffer, s). events_left s)")
     (auto simp: read_stdin_def once_readable_def events_left_def
           split: if_splits list.splits)

declare readChunk.simps [simp del]





text \<open>The bytes \<open>sendMessageToChrome\<close> writes for a message: the header, then the payload;
  nothing when an exception is caught.\<close>

definition encode :: "'m codec \<Rightarrow> 'm \<Rightarrow> byte list option" where
  "encode cd message =
     (case stringify cd message of
        None \<Rightarrow> None
      | Some buffer \<Rightarrow>
         (case writeUInt32LE (length buffer) of
            None \<Rightarrow> None
          | Some header \<Rightarrow> Some (header @ buffer)))"

subsection \<open>The connection to the desktop app\<close>

text \<open>
  \<open>host_ws\<close> is \<open>this.ws\<close>: \<open>None\<close> for \<open>null\<close>, else the \<open>readyState\<close> of the socket held.
  The last four fields record what the host did: \<open>delivered\<close>, the messages passed to
  \<open>ws.send\<close> of an open socket, in order; \<open>timers\<close>, the reconnect timers armed by
  \<open>setTimeout\<close> and not fired yet; \<open>connects\<close>, the number of sockets created; \<open>stdout\<close>,
  the bytes written to Chrome.
\<close>

record 'm host =
  host_ws :: "ready_state option"
  reconnectAttempts :: nat
  maxReconnectAttempts :: nat
  messageQueue :: "'m list"
  delivered :: "'m list"
  timers :: nat
  connects :: nat
  stdout :: "byte list"

definition sendMessageToChrome :: "'m codec \<Rightarrow> 'm host \<Rightarrow> 'm \<Rightarrow> 'm host" where
  "sendMessageToChrome cd h message =
     (case encode cd message of
        None \<Rightarrow> h
      | Some frame \<Rightarrow> h\<lparr>stdout := stdout h @ frame\<rparr>)"

definition sendMessageToDesktopApp :: "'m host \<Rightarrow> 'm \<Rightarrow> 'm host" where
  "sendMessageToDesktopApp h message =
     (if host_ws h = Some OPEN
      then h\<lparr>delivered := delivered h @ [message]\<rparr>
      else h\<lparr>messageQueue := messageQueue h @ [message]\<rparr>)"

text \<open>\<open>new WebSocket(this.wsUrl)\<close> and the registration of the four handlers.\<close>

definition connectToDesktopApp :: "'m host \<Rightarrow> 'm host" where
  "connectToDesktopApp h = h\<lparr>host_ws := Some CONNECTING, connects := connects h + 1\<rparr>"

text \<open>The \<open>while\<close> loop of the \<open>open\<close> handler: \<open>shift\<close> the head of the queue and send
  it, until the queue is empty.\<close>

fun send_queued :: "'m list \<Rightarrow> 'm list \<Rightarrow> 'm list" where
  "send_queued [] out = out"
| "send_queued (msg # queue) out = send_queued queue (out @ [msg])"

definition on_open :: "'m host \<Rightarrow> 'm host" where
  "on_open h =
     h\<lparr>host_ws := Some OPEN, reconnectAttempts := 0,
       delivered := send_queued (messageQueue h) (delivered h), messageQueue := []\<rparr>"

definition on_close :: "'m host \<Rightarrow> 'm host" where
  "on_close h =
     (if reconnectAttempts h < maxReconnectAttempts h
      then h\<lparr>host_ws := None, reconnectAttempts := reconnectAttempts h + 1,
             timers := timers h + 1\<rparr>
      else h\<lparr>host_ws := None\<rparr>)"

text \<open>
  What can happen to the host.  \<open>Submit\<close> is a call of \<open>sendMessageToDesktopApp\<close>,
  \<open>Connect\<close> a call of \<open>connectToDesktopApp\<close> by the host's owner (as \<open>start\<close> does),
  \<open>TimerFires\<close> the callback of an armed reconnect timer, and the others the events of
  the socket held.  The model follows the one socket the host holds: an event of a
  socket comes only while that socket is held and in the state where the library emits
  it, and the owner calls \<open>connectToDesktopApp\<close> only when no socket is held and no
  timer is armed.  An event that cannot come leaves the host as it is.
\<close>

datatype 'm event =
    Submit 'm
  | Connect
  | TimerFires
  | WsOpen
  | WsMessage 'm
  | WsError
  | WsClosing
  | WsClose

fun step :: "'m codec \<Rightarrow> 'm host \<Rightarrow> 'm event \<Rightarrow> 'm host" where
  "step cd h (Submit message) = sendMessageToDesktopApp h message"
| "step cd h Connect =
     (if host_ws h = None \<and> timers h = 0 then connectToDesktopApp h else h)"
| "step cd h TimerFires =
     (if 0 < timers h then connectToDesktopApp (h\<lparr>timers := timers h - 1\<rparr>) else h)"
| "step cd h WsOpen = (if host_ws h = Some CONNECTING then on_open h else h)"
| "step cd h (WsMessage message) =
     (if host_ws h = Some OPEN then sendMessageToChrome cd h message else h)"
| "step cd h WsError = h"
| "step cd h WsClosing = (if host_ws h = Some OPEN then h\<lparr>host_ws := Some CLOSING\<rparr> else h)"
| "step cd h WsClose = (if host_ws h \<noteq> None then on_close h else h)"

fun steps :: "'m codec \<Rightarrow> 'm host \<Rightarrow> 'm event list \<Rightarrow> 'm host" where
  "steps cd h [] = h"
| "steps cd h (e # es) = steps cd (step cd h e) es"

text \<open>The messages a run submits, in order.\<close>

fun submitted :: "'m event list \<Rightarrow> 'm list" where
  "submitted [] = []"
| "submitted (Submit message # es) = message # submitted es"
| "submitted (e # es) = submitted es"

text \<open>A host as its constructor leaves it: \<open>config.maxReconnectAttempts || 10\<close>.\<close>

definition new_host :: "nat option \<Rightarrow> 'm host" where
  "new_host limit =
     \<lparr>host_ws = None, reconnectAttempts = 0,
      maxReconnectAttempts = (case limit of None \<Rightarrow> 10 | Some n \<Rightarrow> if n = 0 then 10 else n),
      messageQueue = [], delivered = [], timers = 0, connects = 0, stdout = []\<rparr>"

subsection \<open>The main loop of \<open>start\<close>\<close>
















section \<open>Examples\<close>

text \<open>A store holding one conversation \<open>c1\<close> that has no message yet, created by
  \<open>upsertConversation\<close> on a fresh database.\<close>

definition example_store :: database where
  "example_store =
     (case upsertConversation (init True) 900000
        (empty_conversation_data\<lparr>cd_id := Some ''c1'', cd_platform := Some ''x'',
           cd_started_at := Some 900000, cd_last_activity := Some 900000\<rparr>) of
        Inr db \<Rightarrow> db | Inl e \<Rightarrow> init True)"



text \<open>An upsert of the stored conversation \<open>c1\<close> that supplies other values for every
  column.\<close>

definition example_upsert :: conversation_data where
  "example_upsert =
     \<lparr>cd_id = Some ''c1'', cd_platform = Some ''y'',
      cd_platform_conversation_id = Some ''p9'', cd_conversation_id = None,
      cd_started_at = Some 5, cd_last_activity = Some 950000, cd_title = Some ''t'',
      cd_message_count = Some 7, cd_total_tokens = Some 70, cd_model_used = Some ''m'',
      cd_metadata = Some ''[7]''\<rparr>"

text \<open>A capture that names the message with the given id.\<close>

definition example_capture :: "string \<Rightarrow> capture_data" where
  "example_capture message_id =
     empty_capture_data\<lparr>ad_id := Some ''a1'', ad_message_id := Some message_id,
       ad_timestamp := Some 1000500, ad_request_url := Some ''https://api/chat''\<rparr>"

text \<open>A stand-in for the digest in the examples, and three observations of the prompt
  text \<open>P\<close> on platform \<open>x\<close>, at times 1000, 2000 and 3000.\<close>

definition example_digest :: "string \<Rightarrow> string" where
  "example_digest text = ''#'' @ text"

definition example_prompt :: prompt_data where
  "example_prompt = empty_prompt_data\<lparr>pd_platform := Some ''x'', pd_prompt_text := Some ''P''\<rparr>"

definition example_prompt_calls :: "(int \<times> string \<times> prompt_data) list" where
  "example_prompt_calls =
     [(1000, ''u1'', example_prompt), (2000, ''u2'', example_prompt),
      (3000, ''u3'', example_prompt)]"

text \<open>An open connection after the welcome message, the identifiers drawn in the
  examples, and three envelopes: a conversation with its platform, a conversation
  without one, and the message at position 4 of the stored conversation \<open>c1\<close>.\<close>

definition example_socket :: socket where
  "example_socket = \<lparr>readyState = OPEN, sent = [Connection 999000]\<rparr>"

definition example_uuid :: "nat \<Rightarrow> string" where
  "example_uuid k = ''uuid-'' @ replicate k CHR ''+''"

definition example_conversation_envelope :: "string option \<Rightarrow> envelope" where
  "example_conversation_envelope platform =
     \<lparr>env_id = Some ''e1'',
      env_body = Conversation (Some (empty_conversation_data\<lparr>cd_id := Some ''c2'',
        cd_platform := platform\<rparr>))\<rparr>"

definition example_user_message :: message_data where
  "example_user_message =
     empty_message_data\<lparr>md_id := Some ''m1'', md_conversation_id := Some ''c1'',
       md_timestamp := Some 1000000, md_role := Some ''user'', md_content := Some ''hello'',
       md_message_position := Some 4, md_tokens_total := Some 10, md_platform := Some ''x''\<rparr>"


text \<open>
  A stand-in for the runtime's JSON in the examples.  A message is a string of bytes
  other than the double quote and the backslash; its text is the message between double
  quotes, as \<open>JSON.stringify\<close> writes a string of such characters, and only such a text
  parses.
\<close>

definition plain :: "byte \<Rightarrow> bool" where
  "plain b = (b \<noteq> 34 \<and> b \<noteq> 92)"

definition example_codec :: "byte list codec" where
  "example_codec =
     \<lparr>stringify = (\<lambda>m. if list_all plain m then Some (34 # m @ [34]) else None),
      parse = (\<lambda>bs. case bs of
                 [] \<Rightarrow> Inl ''Unexpected end of JSON input''
               | b # rest \<Rightarrow>
                   if b = 34 \<and> rest \<noteq> [] \<and> last rest = 34 \<and> list_all plain (butlast rest)
                   then Inr (butlast rest)
                   else Inl ''Unexpected token'')\<rparr>"




section \<open>Properties of the Store\<close>

subsection \<open>Aggregates maintained by \<open>insertMessage\<close>\<close>

lemma find_conv_id_map:
  assumes "\<And>r. conv_id (f r) = conv_id r"
  shows "find (\<lambda>r. conv_id r = k) (map f rows) = map_option f (find (\<lambda>r. conv_id r = k) rows)"
  using assms by (induction rows) auto


lemma or_null_int_total [simp]:
  "(case or_null_int t of None \<Rightarrow> 0 | Some x \<Rightarrow> x) = (case t of None \<Rightarrow> 0 | Some x \<Rightarrow> x)"
  by (cases t) auto


lemma message_row_sel [simp]:
  "msg_conversation_id (message_row now data cid ts role content) = cid"
  "msg_timestamp (message_row now data cid ts role content) = ts"
  "msg_tokens_total (message_row now data cid ts role content) = or_null_int (md_tokens_total data)"
  "msg_id (message_row now data cid ts role content) = md_id data"
  by (simp_all add: message_row_def)

lemma row_tokens_message_row [simp]:
  "row_tokens (message_row now data cid ts role content) = tokens_of data"
  by (simp add: row_tokens_def tokens_of_def)


text \<open>When the statement is accepted: the \<open>NOT NULL\<close> columns are there, the id is new and
  the conversation is stored.\<close>

lemma insertMessage_accepts:
  assumes "md_conversation_id data = Some cid" and "md_timestamp data = Some ts"
    and "md_role data = Some role"
    and "or_else_str (md_content data) (md_visible_content data) = Some content"
    and "md_id data \<notin> msg_id ` set (messages db)"
    and "Some cid \<in> conv_id ` set (conversations db)"
  shows "insertMessage db now data =
           Inr (db\<lparr>messages := messages db @ [message_row now data cid ts role content],
                   conversations := update_conversation_stats now
                     (message_row now data cid ts role content) (conversations db)\<rparr>)"
  using assms by (simp add: insertMessage_def)



lemma example_store_eval:
  "example_store = \<lparr>foreign_keys = True, conversations =
      [\<lparr>conv_id = Some ''c1'', conv_platform = ''x'',
        conv_platform_conversation_id = None, conv_title = None, conv_started_at = 900000,
        conv_last_activity = 900000, conv_message_count = 0, conv_total_tokens = 0,
        conv_total_cost = 0, conv_model_used = None, conv_status = ''active'',
        conv_metadata = ''{}'', conv_created_at = 900000, conv_updated_at = 900000\<rparr>],
      messages = [], api_captures = [], system_prompts = [], streaming_chunks = []\<rparr>"
  by (simp add: example_store_def upsertConversation_def init_def empty_conversation_data_def
        conversation_row_def strftime_ms_def)



subsection \<open>The frame of \<open>upsertConversation\<close>\<close>

lemma find_Some_holds: "find P xs = Some x \<Longrightarrow> P x \<and> x \<in> set xs"
  by (induction xs) (auto split: if_splits)

lemma getConversation_member:
  assumes "getConversation db i = Some c"
  shows "Some i \<in> conv_id ` set (conversations db)"
proof -
  from assms have "conv_id c = Some i" "c \<in> set (conversations db)"
    by (auto simp: getConversation_def dest!: find_Some_holds)
  then show ?thesis by (metis imageI)
qed

lemma map_if_update:
  assumes "\<And>r. g (u r) = g r"
  shows "map g (map (\<lambda>r. if P r then u r else r) rows) = map g rows"
  using assms by (induction rows) auto

lemma filter_others_map:
  assumes "\<And>r. conv_id (u r) = conv_id r"
  shows "filter (\<lambda>r. conv_id r \<noteq> k) (map (\<lambda>r. if conv_id r = k then u r else r) rows) =
         filter (\<lambda>r. conv_id r \<noteq> k) rows"
  using assms by (induction rows) auto

lemma upsertConversation_Inr:
  assumes "upsertConversation db now data = Inr db'"
  obtains platform started_at last_activity where
    "cd_platform data = Some platform" "cd_started_at data = Some started_at"
    "cd_last_activity data = Some last_activity"
proof (cases "cd_platform data")
  case None
  with assms show ?thesis by (simp add: upsertConversation_def)
next
  case p: (Some platform)
  show ?thesis
  proof (cases "cd_started_at data")
    case None
    with assms p show ?thesis by (simp add: upsertConversation_def)
  next
    case s: (Some started_at)
    show ?thesis
    proof (cases "cd_last_activity data")
      case None
      with assms p s show ?thesis by (simp add: upsertConversation_def)
    next
      case (Some last_activity)
      with p s show ?thesis by (rule that)
    qed
  qed
qed

lemma upsertConversation_conflict:
  assumes "upsertConversation db now data = Inr db'"
    and "cd_id data = Some i" and "Some i \<in> conv_id ` set (conversations db)"
    and "cd_last_activity data = Some la"
  shows "db' = db\<lparr>conversations :=
           map (\<lambda>r. if conv_id r = Some i
                     then conflict_update_conversation la (or_int (cd_message_count data) 0)
                            (or_int (cd_total_tokens data) 0) (json_or (cd_metadata data) ''{}'') r
                     else r) (conversations db)\<rparr>"
proof -
  from assms(1) obtain platform started_at last_activity where
    "cd_platform data = Some platform" "cd_started_at data = Some started_at"
    "cd_last_activity data = Some last_activity"
    by (rule upsertConversation_Inr)
  with assms show ?thesis by (simp add: upsertConversation_def)
qed

text \<open>
  C9.  When \<open>upsertConversation\<close> is called with the id of a stored conversation and the
  statement succeeds, the stored row becomes the old row with \<open>last_activity\<close>,
  \<open>message_count\<close>, \<open>total_tokens\<close> and \<open>metadata\<close> replaced by the values of the call:
  every other column, \<open>started_at\<close> and \<open>platform\<close> among them, keeps its value, no row
  is added, rows with an other id are left as they are, and no other table changes.
  (A call that fails changes nothing at all.)
\<close>

theorem upsertConversation_conflict_frame:
  assumes "cd_id data = Some i"
    and "getConversation db i = Some c"
    and "upsertConversation db now data = Inr db'"
  shows "\<exists>la. cd_last_activity data = Some la \<and>
           getConversation db' i =
             Some (c\<lparr>conv_last_activity := la,
                     conv_message_count := or_int (cd_message_count data) 0,
                     conv_total_tokens := or_int (cd_total_tokens data) 0,
                     conv_metadata := json_or (cd_metadata data) ''{}''\<rparr>) \<and>
           map conv_started_at (conversations db') = map conv_started_at (conversations db) \<and>
           map conv_platform (conversations db') = map conv_platform (conversations db) \<and>
           map conv_id (conversations db') = map conv_id (conversations db) \<and>
           filter (\<lambda>r. conv_id r \<noteq> Some i) (conversations db') =
             filter (\<lambda>r. conv_id r \<noteq> Some i) (conversations db) \<and>
           messages db' = messages db \<and> api_captures db' = api_captures db \<and>
           system_prompts db' = system_prompts db \<and>
           streaming_chunks db' = streaming_chunks db"
proof -
  from assms(3) obtain la where la: "cd_last_activity data = Some la"
    by (rule upsertConversation_Inr)
  let ?f = "\<lambda>r. if conv_id r = Some i
                then conflict_update_conversation la (or_int (cd_message_count data) 0)
                       (or_int (cd_total_tokens data) 0) (json_or (cd_metadata data) ''{}'') r
                else r"
  have db': "db' = db\<lparr>conversations := map ?f (conversations db)\<rparr>"
    using assms(3) assms(1) getConversation_member [OF assms(2)] la
    by (rule upsertConversation_conflict)
  have id: "\<And>r. conv_id (?f r) = conv_id r"
    by (simp add: conflict_update_conversation_def)
  have "conv_id c = Some i"
    using assms(2) by (auto simp: getConversation_def dest!: find_Some_holds)
  then have get: "getConversation db' i =
             Some (c\<lparr>conv_last_activity := la,
                     conv_message_count := or_int (cd_message_count data) 0,
                     conv_total_tokens := or_int (cd_total_tokens data) 0,
                     conv_metadata := json_or (cd_metadata data) ''{}''\<rparr>)"
    using assms(2)
    by (simp add: db' getConversation_def find_conv_id_map [of ?f, OF id]
          conflict_update_conversation_def)
  have s: "map conv_started_at (map ?f (conversations db)) = map conv_started_at (conversations db)"
    by (rule map_if_update) (simp add: conflict_update_conversation_def)
  have p: "map conv_platform (map ?f (conversations db)) = map conv_platform (conversations db)"
    by (rule map_if_update) (simp add: conflict_update_conversation_def)
  have k: "map conv_id (map ?f (conversations db)) = map conv_id (conversations db)"
    by (rule map_if_update) (simp add: conflict_update_conversation_def)
  have o: "filter (\<lambda>r. conv_id r \<noteq> Some i) (map ?f (conversations db)) =
           filter (\<lambda>r. conv_id r \<noteq> Some i) (conversations db)"
    by (rule filter_others_map) (simp add: conflict_update_conversation_def)
  show ?thesis
    using la get s p k o by (simp add: db')
qed

theorem upsertConversation_conflict_frame_witness:
  "case upsertConversation example_store 990000 example_upsert of
     Inl e \<Rightarrow> False
   | Inr db' \<Rightarrow>
       (\<exists>c'. getConversation db' ''c1'' = Some c' \<and> conv_started_at c' = 900000 \<and>
          conv_platform c' = ''x'' \<and> conv_title c' = None \<and> conv_created_at c' = 900000 \<and>
          conv_last_activity c' = 950000 \<and> conv_message_count c' = 7 \<and>
          conv_total_tokens c' = 70 \<and> conv_metadata c' = ''[7]'' \<and>
          length (conversations db') = 1)"
proof -
  have "\<exists>db'. upsertConversation example_store 990000 example_upsert = Inr db'"
    by (simp add: upsertConversation_def example_upsert_def example_store_eval)
  then obtain db' where db': "upsertConversation example_store 990000 example_upsert = Inr db'" ..
  have i: "cd_id example_upsert = Some ''c1''" by (simp add: example_upsert_def)
  have "\<exists>c. getConversation example_store ''c1'' = Some c \<and> conv_started_at c = 900000 \<and>
          conv_platform c = ''x'' \<and> conv_title c = None \<and> conv_created_at c = 900000"
    by (simp add: example_store_eval getConversation_def)
  then obtain c where c: "getConversation example_store ''c1'' = Some c"
    "conv_started_at c = 900000" "conv_platform c = ''x''" "conv_title c = None"
    "conv_created_at c = 900000" by blast
  from upsertConversation_conflict_frame [OF i c(1) db'] obtain la where r:
    "cd_last_activity example_upsert = Some la"
    "getConversation db' ''c1'' =
       Some (c\<lparr>conv_last_activity := la,
               conv_message_count := or_int (cd_message_count example_upsert) 0,
               conv_total_tokens := or_int (cd_total_tokens example_upsert) 0,
               conv_metadata := json_or (cd_metadata example_upsert) ''{}''\<rparr>)"
    "map conv_id (conversations db') = map conv_id (conversations example_store)"
    by blast
  from r(3) have "length (map conv_id (conversations db')) = 1"
    by (simp add: example_store_eval)
  then have n: "length (conversations db') = 1" by simp
  from r(1) have la: "la = 950000" by (simp add: example_upsert_def)
  show ?thesis
    using db' r(2) c(2-) la n by (simp add: example_upsert_def)
qed

subsection \<open>\<open>insertApiCapture\<close> and the owning message\<close>

text \<open>No operation of the store changes the enforcement of foreign keys.\<close>

lemma foreign_keys_kept:
  "upsertConversation db now cdata = Inr db' \<Longrightarrow> foreign_keys db' = foreign_keys db"
  "insertMessage db now mdata = Inr db' \<Longrightarrow> foreign_keys db' = foreign_keys db"
  "insertApiCapture db now adata = Inr db' \<Longrightarrow> foreign_keys db' = foreign_keys db"
  "upsertSystemPrompt sha256 db now uuid pdata = Inr db' \<Longrightarrow> foreign_keys db' = foreign_keys db"
  "insertStreamingChunk db sdata = Inr db' \<Longrightarrow> foreign_keys db' = foreign_keys db"
  by (auto simp: upsertConversation_def insertMessage_def insertApiCapture_def
        upsertSystemPrompt_def insertStreamingChunk_def split: option.splits if_splits)

text \<open>
  C3.  On a connection that enforces foreign keys (as better-sqlite3 opens it), a call of
  \<open>insertApiCapture\<close> whose \<open>message_id\<close> is not the id of a stored message fails: the
  statement throws, and the database is the one before the call, so that no capture
  row is stored.
\<close>

theorem insertApiCapture_requires_message:
  assumes "foreign_keys db"
    and "\<forall>mid. ad_message_id data = Some mid \<longrightarrow> Some mid \<notin> msg_id ` set (messages db)"
  shows "\<exists>e. insertApiCapture db now data = Inl e \<and>
           run db (insertApiCapture db now data) = (db, Some e)"
proof (cases "ad_message_id data")
  case None
  then show ?thesis by (simp add: insertApiCapture_def run_def)
next
  case mid: (Some mid)
  with assms(2) have absent: "Some mid \<notin> msg_id ` set (messages db)" by simp
  show ?thesis
  proof (cases "ad_timestamp data")
    case None
    with mid show ?thesis by (simp add: insertApiCapture_def run_def)
  next
    case ts: (Some ts)
    show ?thesis
    proof (cases "or_null_str (ad_request_url data)")
      case None
      with mid ts show ?thesis by (simp add: insertApiCapture_def run_def)
    next
      case (Some url)
      with mid ts absent assms(1) show ?thesis by (simp add: insertApiCapture_def run_def)
    qed
  qed
qed

theorem insertApiCapture_requires_message_witness:
  "foreign_keys example_store \<and>
   insertApiCapture example_store 1000500 (example_capture ''m0'') = Inl ForeignKeyFailed \<and>
   (\<exists>e. run example_store (insertApiCapture example_store 1000500 (example_capture ''m0'')) =
      (example_store, Some e))"
proof -
  have fk: "foreign_keys example_store" by (simp add: example_store_eval)
  have absent: "\<forall>mid. ad_message_id (example_capture ''m0'') = Some mid \<longrightarrow>
      Some mid \<notin> msg_id ` set (messages example_store)"
    by (simp add: example_store_eval)
  from insertApiCapture_requires_message [OF fk absent, of 1000500] obtain e where
    e: "insertApiCapture example_store 1000500 (example_capture ''m0'') = Inl e"
    "run example_store (insertApiCapture example_store 1000500 (example_capture ''m0'')) =
      (example_store, Some e)" by blast
  have "insertApiCapture example_store 1000500 (example_capture ''m0'') = Inl ForeignKeyFailed"
    by (simp add: insertApiCapture_def example_capture_def empty_capture_data_def
          example_store_eval)
  with fk e show ?thesis by blast
qed

text \<open>With the owning message stored, the same capture is accepted.\<close>

lemma insertApiCapture_accepts:
  assumes "ad_message_id data = Some mid" and "Some mid \<in> msg_id ` set (messages db)"
    and "ad_timestamp data = Some ts" and "or_null_str (ad_request_url data) = Some url"
    and "ad_id data \<notin> cap_id ` set (api_captures db)"
  shows "insertApiCapture db now data =
           Inr (db\<lparr>api_captures := api_captures db @ [capture_row now data mid ts url]\<rparr>)"
  using assms by (simp add: insertApiCapture_def)

subsection \<open>Deduplication by \<open>upsertSystemPrompt\<close>\<close>

lemma upsertSystemPrompt_Inr:
  assumes "upsertSystemPrompt sha256 db now uuid data = Inr db'"
  obtains prompt_text platform where
    "pd_prompt_text data = Some prompt_text" "pd_platform data = Some platform"
proof (cases "pd_prompt_text data")
  case None
  with assms show ?thesis by (simp add: upsertSystemPrompt_def)
next
  case t: (Some prompt_text)
  show ?thesis
  proof (cases "pd_platform data")
    case None
    with assms t show ?thesis by (simp add: upsertSystemPrompt_def)
  next
    case (Some platform)
    with t show ?thesis by (rule that)
  qed
qed

lemma trigger_without_duplicate:
  assumes "sp_prompt_hash new \<notin> sp_prompt_hash ` set rows"
  shows "update_system_prompt_occurrence now new (rows @ [new]) = rows @ [new]"
proof -
  have "map (\<lambda>r. if sp_prompt_hash r = sp_prompt_hash new \<and> sp_id r \<noteq> None \<and>
                  sp_id new \<noteq> None \<and> sp_id r \<noteq> sp_id new
               then r\<lparr>sp_occurrence_count := sp_occurrence_count r + 1,
                      sp_last_seen := sp_last_seen new,
                      sp_updated_at := strftime_ms now\<rparr>
               else r) (rows @ [new]) = rows @ [new]"
    using assms by (intro map_idI) (auto simp: image_iff)
  then show ?thesis by (simp only: update_system_prompt_occurrence_def)
qed

lemma prompt_row_sel [simp]:
  "sp_prompt_hash (prompt_row now uuid h data platform text) = h"
  "sp_prompt_text (prompt_row now uuid h data platform text) = text"
  "sp_occurrence_count (prompt_row now uuid h data platform text) = 1"
  "sp_first_seen (prompt_row now uuid h data platform text) = or_int (pd_first_seen data) now"
  "sp_last_seen (prompt_row now uuid h data platform text) = or_int (pd_last_seen data) now"
  by (simp_all add: prompt_row_def)

lemma upsertSystemPrompt_first:
  assumes "upsertSystemPrompt sha256 db now uuid data = Inr db'"
    and "pd_prompt_text data = Some text"
    and "sha256 text \<notin> sp_prompt_hash ` set (system_prompts db)"
  shows "\<exists>platform. filter (\<lambda>r. sp_prompt_hash r = sha256 text) (system_prompts db') =
           [prompt_row now uuid (sha256 text) data platform text]"
proof -
  from assms(1) obtain t platform where
    "pd_prompt_text data = Some t" and p: "pd_platform data = Some platform"
    by (rule upsertSystemPrompt_Inr)
  let ?new = "prompt_row now uuid (sha256 text) data platform text"
  have fresh: "sp_prompt_hash ?new \<notin> sp_prompt_hash ` set (system_prompts db)"
    using assms(3) by simp
  have "system_prompts db' = update_system_prompt_occurrence now ?new (system_prompts db @ [?new])"
    using assms p by (auto simp: upsertSystemPrompt_def split: if_splits)
  then have rows: "system_prompts db' = system_prompts db @ [?new]"
    by (simp only: trigger_without_duplicate [OF fresh])
  have "filter (\<lambda>r. sp_prompt_hash r = sha256 text) (system_prompts db) = []"
    using assms(3) by (induction "system_prompts db") (auto simp: filter_empty_conv image_iff)
  then have "filter (\<lambda>r. sp_prompt_hash r = sha256 text) (system_prompts db') = [?new]"
    by (simp add: rows)
  then show ?thesis ..
qed

lemma filter_hash_map:
  assumes "\<And>r. sp_prompt_hash (u r) = sp_prompt_hash r"
  shows "filter (\<lambda>r. sp_prompt_hash r = h) (map (\<lambda>r. if sp_prompt_hash r = h then u r else r) rows) =
         map u (filter (\<lambda>r. sp_prompt_hash r = h) rows)"
  using assms by (induction rows) auto

lemma upsertSystemPrompt_again:
  assumes "upsertSystemPrompt sha256 db now uuid data = Inr db'"
    and "pd_prompt_text data = Some text"
    and "filter (\<lambda>r. sp_prompt_hash r = sha256 text) (system_prompts db) = [r]"
  shows "filter (\<lambda>r. sp_prompt_hash r = sha256 text) (system_prompts db') =
           [conflict_update_prompt (or_int (pd_last_seen data) now) r]"
proof -
  from assms(1) obtain t platform where
    "pd_prompt_text data = Some t" and p: "pd_platform data = Some platform"
    by (rule upsertSystemPrompt_Inr)
  have "r \<in> set (filter (\<lambda>r. sp_prompt_hash r = sha256 text) (system_prompts db))"
    using assms(3) by simp
  then have "sp_prompt_hash r = sha256 text" "r \<in> set (system_prompts db)" by auto
  then have stored: "sha256 text \<in> sp_prompt_hash ` set (system_prompts db)" by (metis imageI)
  have "system_prompts db' =
          map (\<lambda>r. if sp_prompt_hash r = sha256 text
                    then conflict_update_prompt (or_int (pd_last_seen data) now) r else r)
            (system_prompts db)"
    using assms(1,2) p stored by (auto simp: upsertSystemPrompt_def)
  then show ?thesis
    using assms(3)
    by (simp add: filter_hash_map [where u = "conflict_update_prompt (or_int (pd_last_seen data) now)"]
          conflict_update_prompt_def)
qed

lemma upsertSystemPrompts_again:
  assumes "upsertSystemPrompts sha256 db calls = Inr db'"
    and "\<forall>call \<in> set calls. \<exists>t. pd_prompt_text (snd (snd call)) = Some t \<and> sha256 t = h"
    and "filter (\<lambda>r. sp_prompt_hash r = h) (system_prompts db) = [r]"
  shows "\<exists>r'. filter (\<lambda>r. sp_prompt_hash r = h) (system_prompts db') = [r'] \<and>
           sp_occurrence_count r' = sp_occurrence_count r + int (length calls) \<and>
           sp_first_seen r' = sp_first_seen r \<and> sp_prompt_text r' = sp_prompt_text r \<and>
           sp_last_seen r' =
             (if calls = [] then sp_last_seen r
              else or_int (pd_last_seen (snd (snd (last calls)))) (fst (last calls)))"
  using assms
proof (induction calls arbitrary: db r)
  case Nil
  then show ?case by simp
next
  case (Cons call rest)
  obtain now uuid data where call: "call = (now, uuid, data)" by (cases call)
  from Cons.prems(1) call obtain db1 where
    step: "upsertSystemPrompt sha256 db now uuid data = Inr db1"
    and run: "upsertSystemPrompts sha256 db1 rest = Inr db'"
    by (auto split: sum.splits)
  from Cons.prems(2) call obtain t where t: "pd_prompt_text data = Some t" "sha256 t = h"
    by auto
  define r1 where "r1 = conflict_update_prompt (or_int (pd_last_seen data) now) r"
  have r1: "sp_occurrence_count r1 = sp_occurrence_count r + 1"
    "sp_first_seen r1 = sp_first_seen r" "sp_prompt_text r1 = sp_prompt_text r"
    "sp_last_seen r1 = or_int (pd_last_seen data) now"
    by (simp_all add: r1_def conflict_update_prompt_def)
  have one: "filter (\<lambda>r. sp_prompt_hash r = h) (system_prompts db1) = [r1]"
    using upsertSystemPrompt_again [OF step t(1)] Cons.prems(3) t(2) by (simp add: r1_def)
  from Cons.prems(2) have rest:
    "\<forall>call \<in> set rest. \<exists>t. pd_prompt_text (snd (snd call)) = Some t \<and> sha256 t = h" by simp
  from Cons.IH [OF run rest one] obtain r' where r':
    "filter (\<lambda>r. sp_prompt_hash r = h) (system_prompts db') = [r']"
    "sp_occurrence_count r' = sp_occurrence_count r1 + int (length rest)"
    "sp_first_seen r' = sp_first_seen r1" "sp_prompt_text r' = sp_prompt_text r1"
    "sp_last_seen r' =
       (if rest = [] then sp_last_seen r1
        else or_int (pd_last_seen (snd (snd (last rest)))) (fst (last rest)))"
    by blast
  have n: "sp_occurrence_count r' = sp_occurrence_count r + int (length (call # rest))"
    using r'(2) r1(1) by simp
  have l: "sp_last_seen r' =
       (if call # rest = [] then sp_last_seen r
        else or_int (pd_last_seen (snd (snd (last (call # rest))))) (fst (last (call # rest))))"
    using r'(5) r1(4) call by simp
  from r'(1) n r'(3,4) r1(2,3) l show ?case by auto
qed

text \<open>
  C4.  Take a store that holds no prompt with the digest \<open>h\<close>, and \<open>K \<ge> 1\<close> calls of
  \<open>upsertSystemPrompt\<close> that complete, each with a text whose digest is \<open>h\<close> (the same
  text \<open>K\<close> times, for one).  Afterwards exactly one stored row has that digest; its
  \<open>occurrence_count\<close> is \<open>K\<close>; its \<open>first_seen\<close> and its text are those the first call
  stored; and its \<open>last_seen\<close> is the last call's (\<open>data.last_seen || Date.now()\<close>).
\<close>

theorem upsertSystemPrompt_deduplicates:
  assumes "h \<notin> sp_prompt_hash ` set (system_prompts db)"
    and "\<forall>call \<in> set ((now, uuid, data) # rest).
           \<exists>t. pd_prompt_text (snd (snd call)) = Some t \<and> sha256 t = h"
    and "upsertSystemPrompts sha256 db ((now, uuid, data) # rest) = Inr db'"
  shows "\<exists>r. filter (\<lambda>r. sp_prompt_hash r = h) (system_prompts db') = [r] \<and>
           sp_occurrence_count r = int (length ((now, uuid, data) # rest)) \<and>
           sp_first_seen r = or_int (pd_first_seen data) now \<and>
           Some (sp_prompt_text r) = pd_prompt_text data \<and>
           sp_last_seen r =
             or_int (pd_last_seen (snd (snd (last ((now, uuid, data) # rest)))))
               (fst (last ((now, uuid, data) # rest)))"
proof -
  from assms(3) obtain db1 where
    step: "upsertSystemPrompt sha256 db now uuid data = Inr db1"
    and run: "upsertSystemPrompts sha256 db1 rest = Inr db'"
    by (auto split: sum.splits)
  from assms(2) obtain t where t: "pd_prompt_text data = Some t" "sha256 t = h" by auto
  from upsertSystemPrompt_first [OF step t(1)] assms(1) t(2) obtain platform where
    one: "filter (\<lambda>r. sp_prompt_hash r = h) (system_prompts db1) =
            [prompt_row now uuid h data platform t]"
    by auto
  from assms(2) have rest:
    "\<forall>call \<in> set rest. \<exists>t. pd_prompt_text (snd (snd call)) = Some t \<and> sha256 t = h" by simp
  from upsertSystemPrompts_again [OF run rest one] obtain r where r:
    "filter (\<lambda>r. sp_prompt_hash r = h) (system_prompts db') = [r]"
    "sp_occurrence_count r =
       sp_occurrence_count (prompt_row now uuid h data platform t) + int (length rest)"
    "sp_first_seen r = sp_first_seen (prompt_row now uuid h data platform t)"
    "sp_prompt_text r = sp_prompt_text (prompt_row now uuid h data platform t)"
    "sp_last_seen r =
       (if rest = [] then sp_last_seen (prompt_row now uuid h data platform t)
        else or_int (pd_last_seen (snd (snd (last rest)))) (fst (last rest)))"
    by blast
  have "sp_occurrence_count r = int (length ((now, uuid, data) # rest))" using r(2) by simp
  moreover have "sp_first_seen r = or_int (pd_first_seen data) now" using r(3) by simp
  moreover have "Some (sp_prompt_text r) = pd_prompt_text data" using r(4) t(1) by simp
  moreover have "sp_last_seen r =
             or_int (pd_last_seen (snd (snd (last ((now, uuid, data) # rest)))))
               (fst (last ((now, uuid, data) # rest)))"
    using r(5) by simp
  ultimately show ?thesis using r(1) by blast
qed

lemma example_prompt_calls_run:
  "\<exists>db'. upsertSystemPrompts example_digest example_store example_prompt_calls = Inr db'"
  by (simp add: example_prompt_calls_def example_prompt_def empty_prompt_data_def
        upsertSystemPrompt_def example_store_eval update_system_prompt_occurrence_def
        prompt_row_def conflict_update_prompt_def example_digest_def)

theorem upsertSystemPrompt_deduplicates_witness:
  "case upsertSystemPrompts example_digest example_store example_prompt_calls of
     Inl e \<Rightarrow> False
   | Inr db' \<Rightarrow>
       (\<exists>r. filter (\<lambda>r. sp_prompt_hash r = example_digest ''P'') (system_prompts db') = [r] \<and>
          sp_occurrence_count r = 3 \<and> sp_first_seen r = 1000 \<and> sp_last_seen r = 3000 \<and>
          sp_prompt_text r = ''P'')"
proof -
  from example_prompt_calls_run obtain db' where
    db': "upsertSystemPrompts example_digest example_store
            ((1000, ''u1'', example_prompt) #
             [(2000, ''u2'', example_prompt), (3000, ''u3'', example_prompt)]) = Inr db'"
    unfolding example_prompt_calls_def ..
  have fresh: "example_digest ''P'' \<notin> sp_prompt_hash ` set (system_prompts example_store)"
    by (simp add: example_store_eval)
  have same: "\<forall>call \<in> set ((1000, ''u1'', example_prompt) #
             [(2000, ''u2'', example_prompt), (3000, ''u3'', example_prompt)]).
           \<exists>t. pd_prompt_text (snd (snd call)) = Some t \<and> example_digest t = example_digest ''P''"
    by (simp add: example_prompt_def empty_prompt_data_def)
  from upsertSystemPrompt_deduplicates [OF fresh same db'] obtain r where r:
    "filter (\<lambda>r. sp_prompt_hash r = example_digest ''P'') (system_prompts db') = [r]"
    "sp_occurrence_count r = int (length ((1000::int, ''u1'', example_prompt) #
             [(2000, ''u2'', example_prompt), (3000, ''u3'', example_prompt)]))"
    "sp_first_seen r = or_int (pd_first_seen example_prompt) 1000"
    "Some (sp_prompt_text r) = pd_prompt_text example_prompt"
    "sp_last_seen r =
       or_int (pd_last_seen (snd (snd (last ((1000::int, ''u1'', example_prompt) #
             [(2000, ''u2'', example_prompt), (3000, ''u3'', example_prompt)])))))
         (fst (last ((1000::int, ''u1'', example_prompt) #
             [(2000, ''u2'', example_prompt), (3000, ''u3'', example_prompt)])))"
    by blast
  have "sp_occurrence_count r = 3" using r(2) by simp
  moreover have "sp_first_seen r = 1000"
    using r(3) by (simp add: example_prompt_def empty_prompt_data_def)
  moreover have "sp_last_seen r = 3000"
    using r(5) by (simp add: example_prompt_def empty_prompt_data_def)
  moreover have "sp_prompt_text r = ''P''"
    using r(4) by (simp add: example_prompt_def empty_prompt_data_def)
  ultimately show ?thesis
    using r(1) db' by (simp add: example_prompt_calls_def)
qed

section \<open>Properties of the Ingestion Server\<close>

subsection \<open>The follow-up upsert of \<open>handleUserMessage\<close>\<close>

lemma upsertConversation_needs_started_at:
  assumes "cd_started_at data = None"
  shows "\<exists>e. upsertConversation db now data = Inl e"
  using assms by (cases "cd_platform data") (simp_all add: upsertConversation_def)

lemma conversation_update_started_at [simp]:
  "cd_started_at (conversation_update now data) = None"
  by (simp add: conversation_update_def empty_conversation_data_def)

text \<open>The object \<open>handleUserMessage\<close> passes to \<open>upsertConversation\<close> has no \<open>started_at\<close>,
  a \<open>NOT NULL\<close> column of the \<open>VALUES\<close> clause: the statement fails whether or not the row
  exists, and the handler never returns normally.\<close>

lemma handleUserMessage_throws:
  "\<exists>e. snd (handleUserMessage db now uuid d) = Some e"
proof (cases d)
  case None
  then show ?thesis by (simp add: handleUserMessage_def)
next
  case (Some data)
  show ?thesis
  proof (cases "insertMessage db now (messageData now uuid data)")
    case (Inl e)
    with Some show ?thesis by (simp add: handleUserMessage_def)
  next
    case (Inr db1)
    obtain e where "upsertConversation db1 now (conversation_update now data) = Inl e"
      using upsertConversation_needs_started_at [OF conversation_update_started_at] by blast
    with Some Inr show ?thesis by (simp add: handleUserMessage_def run_def)
  qed
qed

text \<open>
  C10.  The envelope \<open>{type: 'message', data: {id: 'm1', conversation_id: 'c1', timestamp:
  1000000, role: 'user', content: 'hello', message_position: 4, tokens_total: 10, platform:
  'x'}}\<close> for the stored conversation \<open>c1\<close> (no message, aggregates 0): the insert runs and
  its trigger sets \<open>message_count = 1\<close> and \<open>total_tokens = 10\<close>; the follow-up upsert then
  throws on \<open>started_at\<close>, so the row is not overwritten with \<open>message_count = 5\<close> and
  \<open>total_tokens = 0\<close>.
\<close>

theorem handleUserMessage_upsert_fails:
  "snd (handleUserMessage example_store 1000000 example_uuid (Some example_user_message)) =
     Some (NotNullFailed ''conversations.started_at'') \<and>
   map conv_message_count
     (conversations (fst (handleUserMessage example_store 1000000 example_uuid
        (Some example_user_message)))) = [1] \<and>
   map conv_total_tokens
     (conversations (fst (handleUserMessage example_store 1000000 example_uuid
        (Some example_user_message)))) = [10] \<and>
   map msg_id
     (messages (fst (handleUserMessage example_store 1000000 example_uuid
        (Some example_user_message)))) = [Some ''m1'']"
proof -
  have ins: "insertMessage example_store 1000000 (messageData 1000000 example_uuid example_user_message) =
    Inr (example_store\<lparr>messages := [message_row 1000000
            (messageData 1000000 example_uuid example_user_message) ''c1'' 1000000 ''user'' ''hello''],
          conversations := update_conversation_stats 1000000
            (message_row 1000000
              (messageData 1000000 example_uuid example_user_message) ''c1'' 1000000 ''user'' ''hello'')
            (conversations example_store)\<rparr>)"
    by (simp add: insertMessage_def messageData_def example_user_message_def
          empty_message_data_def example_store_eval)
  have ups: "\<And>db. upsertConversation db 1000000 (conversation_update 1000000 example_user_message) =
      Inl (NotNullFailed ''conversations.started_at'')"
    by (simp add: upsertConversation_def conversation_update_def example_user_message_def
          empty_message_data_def empty_conversation_data_def)
  have tok: "msg_tokens_total (message_row 1000000
            (messageData 1000000 example_uuid example_user_message) ''c1'' 1000000 ''user'' ''hello'')
            = Some 10"
    by (simp add: messageData_def example_user_message_def empty_message_data_def)
  have res: "handleUserMessage example_store 1000000 example_uuid (Some example_user_message) =
    (example_store\<lparr>messages := [message_row 1000000
            (messageData 1000000 example_uuid example_user_message) ''c1'' 1000000 ''user'' ''hello''],
          conversations := update_conversation_stats 1000000
            (message_row 1000000
              (messageData 1000000 example_uuid example_user_message) ''c1'' 1000000 ''user'' ''hello'')
            (conversations example_store)\<rparr>,
     Some (NotNullFailed ''conversations.started_at''))"
    by (simp add: handleUserMessage_def ins ups run_def)
  have convs: "map conv_id (conversations example_store) = [Some ''c1'']"
    "map conv_message_count (conversations example_store) = [0]"
    "map conv_total_tokens (conversations example_store) = [0]"
    by (simp_all add: example_store_eval)
  have stats: "map conv_message_count (update_conversation_stats 1000000
            (message_row 1000000
              (messageData 1000000 example_uuid example_user_message) ''c1'' 1000000 ''user'' ''hello'')
            (conversations example_store)) = [1]"
    "map conv_total_tokens (update_conversation_stats 1000000
            (message_row 1000000
              (messageData 1000000 example_uuid example_user_message) ''c1'' 1000000 ''user'' ''hello'')
            (conversations example_store)) = [10]"
    using convs tok by (auto simp: update_conversation_stats_def)
  have mid: "md_id (messageData 1000000 example_uuid example_user_message) = Some ''m1''"
    by (simp add: messageData_def example_user_message_def empty_message_data_def)
  show ?thesis
    by (simp add: res stats mid)
qed

subsection \<open>Acknowledgments and error notifications\<close>

lemma emitted_append [simp]: "emitted ws (ws\<lparr>sent := sent ws @ ms\<rparr>) = ms"
  by (simp add: emitted_def)

lemma emitted_same [simp]: "emitted ws ws = []"
  by (simp add: emitted_def)

lemma dispatch_socket:
  assumes "readyState ws = OPEN"
  shows "snd (dispatch sha256 now uuid db ws body) = ws \<or>
         snd (dispatch sha256 now uuid db ws body) = ws\<lparr>sent := sent ws @ [Pong now]\<rparr>"
  using assms by (cases body) (simp_all add: send_def)

text \<open>
  C2, as amended.  For an envelope handled while the connection is open: when the
  handler returns, the server writes exactly one acknowledgment, \<open>{type: 'ack', messageId,
  timestamp}\<close> with the envelope's \<open>id\<close>, and no error notification; when the handler
  throws, it writes exactly one error notification, carrying the message of the
  exception, and no acknowledgment.  Either way the connection stays open.
\<close>

theorem handleMessage_ack_or_error:
  assumes "readyState ws = OPEN"
  shows "readyState (snd (handleMessage sha256 now uuid db ws message)) = OPEN \<and>
    (case snd (fst (dispatch sha256 now uuid db ws (env_body message))) of
       None \<Rightarrow>
         filter is_ack (emitted ws (snd (handleMessage sha256 now uuid db ws message))) =
           [Ack (env_id message) now] \<and>
         filter is_error (emitted ws (snd (handleMessage sha256 now uuid db ws message))) = []
     | Some err \<Rightarrow>
         filter is_ack (emitted ws (snd (handleMessage sha256 now uuid db ws message))) = [] \<and>
         filter is_error (emitted ws (snd (handleMessage sha256 now uuid db ws message))) =
           [ErrorNotification (err_message err) now])"
proof -
  obtain db1 thrown ws1 where d:
    "dispatch sha256 now uuid db ws (env_body message) = ((db1, thrown), ws1)"
    by (metis surj_pair)
  from dispatch_socket [OF assms, of sha256 now uuid db "env_body message"] d
  have "ws1 = ws \<or> ws1 = ws\<lparr>sent := sent ws @ [Pong now]\<rparr>" by simp
  then show ?thesis
  proof
    assume "ws1 = ws"
    with d assms show ?thesis
      by (cases thrown) (simp_all add: handleMessage_def send_def sendError_def)
  next
    assume "ws1 = ws\<lparr>sent := sent ws @ [Pong now]\<rparr>"
    with d assms show ?thesis
      by (cases thrown) (simp_all add: handleMessage_def send_def sendError_def)
  qed
qed

theorem handleMessage_ack_or_error_witness:
  "readyState example_socket = OPEN \<and>
   snd (fst (dispatch example_digest 1000000 example_uuid example_store example_socket
          (env_body (example_conversation_envelope (Some ''x''))))) = None \<and>
   filter is_ack (emitted example_socket
     (snd (handleMessage example_digest 1000000 example_uuid example_store example_socket
            (example_conversation_envelope (Some ''x''))))) = [Ack (Some ''e1'') 1000000] \<and>
   filter is_error (emitted example_socket
     (snd (handleMessage example_digest 1000000 example_uuid example_store example_socket
            (example_conversation_envelope (Some ''x''))))) = []"
proof -
  have op: "readyState example_socket = OPEN" by (simp add: example_socket_def)
  have ok: "snd (fst (dispatch example_digest 1000000 example_uuid example_store example_socket
          (env_body (example_conversation_envelope (Some ''x''))))) = None"
    by (simp add: example_conversation_envelope_def handleConversation_def
          upsertConversation_def empty_conversation_data_def run_def example_store_eval)
  from handleMessage_ack_or_error [OF op, of example_digest 1000000 example_uuid example_store
      "example_conversation_envelope (Some ''x'')"] ok op
  show ?thesis by (simp add: example_conversation_envelope_def)
qed

text \<open>C2, as stated, fails where a handler throws: the conversation envelope without a
  platform is answered by an error notification and by no acknowledgment.\<close>

theorem handleMessage_failure_no_ack:
  "emitted example_socket
     (snd (handleMessage example_digest 1000000 example_uuid example_store example_socket
            (example_conversation_envelope None))) =
     [ErrorNotification ''NOT NULL constraint failed: conversations.platform'' 1000000] \<and>
   filter is_ack (emitted example_socket
     (snd (handleMessage example_digest 1000000 example_uuid example_store example_socket
            (example_conversation_envelope None)))) = []"
  by (simp add: handleMessage_def example_conversation_envelope_def handleConversation_def
        upsertConversation_def empty_conversation_data_def run_def sendError_def send_def
        example_socket_def emitted_def)

text \<open>On a connection that is not open nothing is written.\<close>

lemma handleMessage_not_open:
  assumes "readyState ws \<noteq> OPEN"
  shows "snd (handleMessage sha256 now uuid db ws message) = ws"
proof -
  have "snd (dispatch sha256 now uuid db ws (env_body message)) = ws"
    using assms by (cases "env_body message") (simp_all add: send_def)
  then show ?thesis
    using assms
    by (cases "dispatch sha256 now uuid db ws (env_body message)")
       (auto simp: handleMessage_def send_def sendError_def split: option.splits prod.splits)
qed

section \<open>Properties of the Bridge\<close>

subsection \<open>The outbound queue\<close>

lemma send_queued_append: "send_queued queue out = out @ queue"
  by (induction queue arbitrary: out) auto

lemma submit_all_open:
  assumes "host_ws h = Some OPEN"
  shows "steps cd h (map Submit ns) = h\<lparr>delivered := delivered h @ ns\<rparr>"
  using assms by (induction ns arbitrary: h) (simp_all add: sendMessageToDesktopApp_def)

lemma step_keeps_order:
  assumes "host_ws h = Some OPEN \<longrightarrow> messageQueue h = []"
  shows "(host_ws (step cd h e) = Some OPEN \<longrightarrow> messageQueue (step cd h e) = []) \<and>
         delivered (step cd h e) @ messageQueue (step cd h e) =
           delivered h @ messageQueue h @ submitted [e]"
  using assms
  by (cases e)
     (auto simp: sendMessageToDesktopApp_def connectToDesktopApp_def on_open_def on_close_def
        sendMessageToChrome_def send_queued_append split: option.splits)

lemma submitted_Cons: "submitted (e # es) = submitted [e] @ submitted es"
  by (cases e) simp_all

lemma steps_keep_order:
  assumes "host_ws h = Some OPEN \<longrightarrow> messageQueue h = []"
  shows "delivered (steps cd h es) @ messageQueue (steps cd h es) =
           delivered h @ messageQueue h @ submitted es"
  using assms
proof (induction es arbitrary: h)
  case Nil
  then show ?case by simp
next
  case (Cons e es)
  from step_keeps_order [OF Cons.prems, of cd e] have
    inv: "host_ws (step cd h e) = Some OPEN \<longrightarrow> messageQueue (step cd h e) = []" and
    one: "delivered (step cd h e) @ messageQueue (step cd h e) =
            delivered h @ messageQueue h @ submitted [e]" by simp_all
  have "delivered (steps cd h (e # es)) @ messageQueue (steps cd h (e # es)) =
        (delivered (step cd h e) @ messageQueue (step cd h e)) @ submitted es"
    using Cons.IH [OF inv] by simp
  also have "\<dots> = delivered h @ messageQueue h @ submitted (e # es)"
    unfolding one by (simp add: submitted_Cons [of e es])
  finally show ?case .
qed

lemma steps_keep_invariant:
  assumes "host_ws h = Some OPEN \<longrightarrow> messageQueue h = []"
  shows "host_ws (steps cd h es) = Some OPEN \<longrightarrow> messageQueue (steps cd h es) = []"
  using assms
proof (induction es arbitrary: h)
  case Nil
  then show ?case by simp
next
  case (Cons e es)
  from step_keeps_order [OF Cons.prems, of cd e]
  have "host_ws (step cd h e) = Some OPEN \<longrightarrow> messageQueue (step cd h e) = []" by simp
  from Cons.IH [OF this] show ?case by simp
qed

text \<open>Every run of a host from its construction: the queue is empty while the socket is
  open, and what was transmitted followed by what is queued is what was submitted.\<close>

lemma new_host_runs:
  "(host_ws (steps cd (new_host limit) es) = Some OPEN \<longrightarrow>
      messageQueue (steps cd (new_host limit) es) = []) \<and>
   delivered (steps cd (new_host limit) es) @ messageQueue (steps cd (new_host limit) es) =
     submitted es"
proof -
  have inv: "host_ws (new_host limit :: 'a host) = Some OPEN \<longrightarrow>
      messageQueue (new_host limit :: 'a host) = []"
    by (simp add: new_host_def)
  from steps_keep_invariant [OF inv] steps_keep_order [OF inv, of cd es]
  show ?thesis by (simp add: new_host_def)
qed

text \<open>
  C7.  A message submitted while the socket is not open is appended to the queue and
  nothing is transmitted.  When the socket opens, the queue is sent in the order of
  enqueueing and emptied, and the messages submitted from then on follow it on the wire.
  Over any run of a host that starts with an empty queue whenever its socket is open,
  what has been transmitted followed by what is queued is what was there before followed
  by the messages submitted, in the order of submission.
\<close>

theorem queue_preserves_order:
  assumes "host_ws h = Some OPEN \<longrightarrow> messageQueue h = []"
  shows "(host_ws h \<noteq> Some OPEN \<longrightarrow>
            messageQueue (sendMessageToDesktopApp h m) = messageQueue h @ [m] \<and>
            delivered (sendMessageToDesktopApp h m) = delivered h) \<and>
         (host_ws h = Some CONNECTING \<longrightarrow>
            delivered (steps cd h (WsOpen # map Submit ns)) = delivered h @ messageQueue h @ ns \<and>
            messageQueue (steps cd h (WsOpen # map Submit ns)) = []) \<and>
         delivered (steps cd h es) @ messageQueue (steps cd h es) =
           delivered h @ messageQueue h @ submitted es"
proof (intro conjI impI)
  assume "host_ws h \<noteq> Some OPEN"
  then show "messageQueue (sendMessageToDesktopApp h m) = messageQueue h @ [m]"
    and "delivered (sendMessageToDesktopApp h m) = delivered h"
    by (simp_all add: sendMessageToDesktopApp_def)
next
  assume c: "host_ws h = Some CONNECTING"
  have o: "host_ws (on_open h) = Some OPEN" by (simp add: on_open_def)
  have run: "steps cd h (WsOpen # map Submit ns) =
      (on_open h)\<lparr>delivered := delivered (on_open h) @ ns\<rparr>"
    using c by (simp add: submit_all_open [OF o])
  show "delivered (steps cd h (WsOpen # map Submit ns)) = delivered h @ messageQueue h @ ns"
    unfolding run by (simp add: on_open_def send_queued_append)
  show "messageQueue (steps cd h (WsOpen # map Submit ns)) = []"
    unfolding run by (simp add: on_open_def)
next
  show "delivered (steps cd h es) @ messageQueue (steps cd h es) =
           delivered h @ messageQueue h @ submitted es"
    using assms by (rule steps_keep_order)
qed

theorem queue_preserves_order_witness:
  "messageQueue (steps example_codec (new_host (Some 10)) [Submit [1], Connect, Submit [2]]) =
     [[1], [2]] \<and>
   delivered (steps example_codec (new_host (Some 10)) [Submit [1], Connect, Submit [2]]) = [] \<and>
   delivered (steps example_codec (new_host (Some 10))
     [Submit [1], Connect, Submit [2], WsOpen, Submit [3]]) = [[1], [2], [3]] \<and>
   messageQueue (steps example_codec (new_host (Some 10))
     [Submit [1], Connect, Submit [2], WsOpen, Submit [3]]) = []"
proof -
  let ?h = "steps example_codec (new_host (Some 10)) [Submit [1], Connect, Submit [2]]"
  have h: "host_ws ?h = Some CONNECTING" "messageQueue ?h = [[1], [2]]" "delivered ?h = []"
    by (simp_all add: new_host_def sendMessageToDesktopApp_def connectToDesktopApp_def)
  then have inv: "host_ws ?h = Some OPEN \<longrightarrow> messageQueue ?h = []" by simp
  from queue_preserves_order [OF inv, of "[0]" example_codec "[[3]]" "[]"] h
  have "delivered (steps example_codec ?h (WsOpen # map Submit [[3]])) = [[1], [2], [3]]"
    "messageQueue (steps example_codec ?h (WsOpen # map Submit [[3]])) = []"
    by simp_all
  moreover have "steps example_codec ?h (WsOpen # map Submit [[3]]) =
      steps example_codec (new_host (Some 10)) [Submit [1], Connect, Submit [2], WsOpen, Submit [3]]"
    by simp
  ultimately show ?thesis using h by simp
qed

subsection \<open>The limit on reconnection\<close>






subsection \<open>The length prefix\<close>




subsection \<open>Reading one frame\<close>

lemma read_stdin_enough:
  assumes "0 < n" and "n \<le> length (buffered s)"
  shows "read_stdin n s = (Some (take n (buffered s)), s\<lparr>buffered := drop n (buffered s)\<rparr>)"
  using assms by (simp add: read_stdin_def)






subsection \<open>Round trip through the framing\<close>



lemma example_codec_simps [simp]:
  "stringify example_codec m = (if list_all plain m then Some (34 # m @ [34]) else None)"
  "parse example_codec [] = Inl ''Unexpected end of JSON input''"
  "parse example_codec (b # rest) =
     (if b = 34 \<and> rest \<noteq> [] \<and> last rest = 34 \<and> list_all plain (butlast rest)
      then Inr (butlast rest) else Inl ''Unexpected token'')"
  by (simp_all add: example_codec_def)


subsection \<open>Frames that are rejected, and long frames\<close>

text \<open>A frame that declares the length 0 is outside what follows: \<open>read(0)\<close> returns
  \<open>null\<close> at every \<open>readable\<close> event, and the promise never settles.\<close>

lemma readChunk_zero_pending: "fst (readChunk cd 0 [] s) = Pending"
proof (induction "events_left s" arbitrary: s rule: less_induct)
  case less
  have rd: "read_stdin 0 s = (None, s)"
    by (simp add: read_stdin_def)
  show ?case
  proof (cases "once_readable s")
    case None
    then show ?thesis by (subst readChunk.simps) (simp add: rd)
  next
    case (Some s2)
    then have "events_left s2 < events_left s"
      by (auto simp: once_readable_def events_left_def split: list.splits if_splits)
    from less [OF this] Some show ?thesis by (subst readChunk.simps) (simp add: rd)
  qed
qed





end
